theory Spec2Isabelle
  imports Complex_Main
begin

section \<open>Data model of the compliance scorer\<close>

text \<open>
  The embedding follows \<^verbatim>\<open>src/monitoring/compliance_scorer.py\<close>.
  Python floats are modelled as \<^typ>\<open>real\<close>: arithmetic is exact, rounding is not
  modelled. Dictionaries are maps, or association lists where the code iterates over
  them. Exceptions are values of the type \<open>error\<close>.
\<close>

datatype HealthCategory = STRUCTURAL | CONTENT | PROCESS | SECURITY | EVOLUTION

text \<open>A reading of \<^verbatim>\<open>datetime.now()\<close>.\<close>

type_synonym timestamp = nat

record HealthMetric =
  metric_name :: string
  metric_category :: HealthCategory
  metric_value :: real
  metric_weight :: real
  metric_status :: string
  metric_trend :: string
  metric_last_updated :: timestamp

text \<open>
  The advisory strings of \<^verbatim>\<open>_generate_recommendations\<close> are f-strings over seven
  fixed templates. A recommendation is modelled as its template together with the
  arguments the template is filled with (the metric's name and value); the rendering
  to text (the leading symbol, title-casing, two decimals) is left out.
\<close>

datatype recommendation =
    CriticalAttention string real
  | BelowThreshold string real
  | IsDeclining string
  | RunRemediation
  | ReviewBestPractices
  | ComprehensiveReview
  | ExcellentHealth

record ComplianceScore =
  overall_score :: real
  category_scores :: "string \<rightharpoonup> real"
  metrics :: "HealthMetric list"
  compliance_level :: string
  health_grade :: string
  trend_analysis :: "string \<rightharpoonup> string"
  recommendations :: "recommendation list"

text \<open>\<^verbatim>\<open>ComplianceScore(overall_score=x)\<close>: every other field takes its default.\<close>

definition new_ComplianceScore :: "real \<Rightarrow> ComplianceScore" where
  "new_ComplianceScore x =
     \<lparr>overall_score = x, category_scores = Map.empty, metrics = [],
      compliance_level = ''basic'', health_grade = ''C'',
      trend_analysis = Map.empty, recommendations = []\<rparr>"

record Thresholds =
  excellent :: real
  good :: real
  fair :: real
  poor :: real
  critical :: real

record MetricDefinition =
  d_category :: HealthCategory
  d_weight :: real
  d_components :: "(string \<times> real) list"
  d_thresholds :: Thresholds

text \<open>
  The argument \<^verbatim>\<open>validation_result\<close>: a dictionary of which the scorer reads the key
  \<^verbatim>\<open>"health_metrics"\<close> only (\<open>None\<close> when the key is absent).
\<close>

record ValidationResult =
  health_metrics :: "(string \<rightharpoonup> real) option"

text \<open>
  One dictionary of the history, as \<^verbatim>\<open>_save_to_history\<close> writes it and as
  \<^verbatim>\<open>_analyze_trends\<close> reads it; a key may be absent (\<open>None\<close>).
\<close>

record HistoryEntry =
  entry_timestamp :: "timestamp option"
  entry_overall_score :: "real option"
  entry_compliance_level :: "string option"
  entry_health_grade :: "string option"
  entry_category_scores :: "(string \<rightharpoonup> real) option"
  entry_trend_analysis :: "(string \<rightharpoonup> string) option"

text \<open>
  The file \<^verbatim>\<open>compliance_history.json\<close>: it does not exist, or its bytes are not
  UTF-8 text, or its text does not decode as JSON, or it holds JSON that is not a list,
  or it holds a list of entries.
\<close>

datatype history_file =
    Missing
  | NotUtf8
  | Undecodable
  | StoredOther
  | Stored "HistoryEntry list"

text \<open>What \<^verbatim>\<open>json.load\<close> returns: a list of entries, or another JSON value.\<close>

datatype json_document = JsonList "HistoryEntry list" | JsonOther

datatype error = KeyError string | UnicodeDecodeError | AttributeError

section \<open>Configuration\<close>

definition load_metric_definitions :: "(string \<times> MetricDefinition) list" where
  "load_metric_definitions =
    [(''structural_health'',
        \<lparr>d_category = STRUCTURAL, d_weight = 0.25,
         d_components = [(''directory_compliance'', 0.4), (''file_presence'', 0.3),
                         (''naming_conventions'', 0.2), (''organization_clarity'', 0.1)],
         d_thresholds = \<lparr>excellent = 0.95, good = 0.85, fair = 0.70, poor = 0.50,
                         critical = 0.30\<rparr>\<rparr>),
     (''content_health'',
        \<lparr>d_category = CONTENT, d_weight = 0.25,
         d_components = [(''documentation_completeness'', 0.35),
                         (''fcm_model_compliance'', 0.30),
                         (''manifest_validity'', 0.20), (''content_quality'', 0.15)],
         d_thresholds = \<lparr>excellent = 0.90, good = 0.80, fair = 0.65, poor = 0.45,
                         critical = 0.25\<rparr>\<rparr>),
     (''process_health'',
        \<lparr>d_category = PROCESS, d_weight = 0.20,
         d_components = [(''automation_presence'', 0.4), (''validation_integration'', 0.3),
                         (''ci_cd_effectiveness'', 0.2), (''workflow_optimization'', 0.1)],
         d_thresholds = \<lparr>excellent = 0.85, good = 0.70, fair = 0.55, poor = 0.35,
                         critical = 0.20\<rparr>\<rparr>),
     (''security_health'',
        \<lparr>d_category = SECURITY, d_weight = 0.15,
         d_components = [(''security_policy'', 0.4), (''dependency_scanning'', 0.3),
                         (''access_control'', 0.2), (''vulnerability_management'', 0.1)],
         d_thresholds = \<lparr>excellent = 0.90, good = 0.75, fair = 0.60, poor = 0.40,
                         critical = 0.20\<rparr>\<rparr>),
     (''evolution_health'',
        \<lparr>d_category = EVOLUTION, d_weight = 0.15,
         d_components = [(''change_frequency'', 0.3), (''improvement_trend'', 0.3),
                         (''adaptation_capability'', 0.2), (''innovation_indicators'', 0.2)],
         d_thresholds = \<lparr>excellent = 0.80, good = 0.65, fair = 0.50, poor = 0.35,
                         critical = 0.20\<rparr>\<rparr>)]"

text \<open>\<^verbatim>\<open>self.metric_definitions\<close>, set by the constructor.\<close>

definition metric_definitions :: "(string \<times> MetricDefinition) list" where
  "metric_definitions = load_metric_definitions"

section \<open>Category scores\<close>

text \<open>\<^verbatim>\<open>d.get(k, default)\<close>\<close>

definition get_default :: "('k \<rightharpoonup> 'v) \<Rightarrow> 'k \<Rightarrow> 'v \<Rightarrow> 'v" where
  "get_default d k dflt = (case d k of None \<Rightarrow> dflt | Some v \<Rightarrow> v)"

definition extract_base_metrics :: "ValidationResult \<Rightarrow> (string \<times> real) list" where
  "extract_base_metrics validation_result =
     (let hm = (case health_metrics validation_result of None \<Rightarrow> Map.empty | Some m \<Rightarrow> m)
      in [(''structural_health'', get_default hm ''structural_health'' 0.0),
          (''content_health'', get_default hm ''content_health'' 0.0),
          (''process_health'', get_default hm ''process_health'' 0.0),
          (''security_health'', get_default hm ''security_health'' 0.0),
          (''overall_health'', get_default hm ''overall_health'' 0.0)])"

definition calculate_evolution_health :: "(string \<times> real) list \<Rightarrow> real" where
  "calculate_evolution_health base_metrics =
     (let avg_health = (if base_metrics \<noteq> []
                        then sum_list (map snd base_metrics) / real (length base_metrics)
                        else 0.5);
          evolution_factor = 0.8 + (avg_health * 0.2)
      in min 1.0 evolution_factor)"

definition calculate_category_score ::
  "string \<Rightarrow> (string \<times> real) list \<Rightarrow> MetricDefinition \<Rightarrow> real" where
  "calculate_category_score category_name base_metrics definition =
     (let base_score = (case map_of base_metrics category_name of
                          Some v \<Rightarrow> v
                        | None \<Rightarrow> 0.5)
      in if category_name = ''evolution_health''
         then calculate_evolution_health base_metrics
         else base_score)"

definition determine_status :: "real \<Rightarrow> Thresholds \<Rightarrow> string" where
  "determine_status score ths =
     (if score \<ge> excellent ths then ''excellent''
      else if score \<ge> good ths then ''good''
      else if score \<ge> fair ths then ''fair''
      else if score \<ge> poor ths then ''poor''
      else ''critical'')"

definition determine_compliance_level :: "real \<Rightarrow> string" where
  "determine_compliance_level overall =
     (if overall \<ge> 0.90 then ''exemplary''
      else if overall \<ge> 0.75 then ''secure''
      else if overall \<ge> 0.60 then ''tested''
      else if overall \<ge> 0.45 then ''documented''
      else if overall \<ge> 0.30 then ''structured''
      else ''basic'')"

definition calculate_health_grade :: "real \<Rightarrow> string" where
  "calculate_health_grade overall =
     (if overall \<ge> 0.95 then ''A+''
      else if overall \<ge> 0.90 then ''A''
      else if overall \<ge> 0.85 then ''A-''
      else if overall \<ge> 0.80 then ''B+''
      else if overall \<ge> 0.75 then ''B''
      else if overall \<ge> 0.70 then ''B-''
      else if overall \<ge> 0.65 then ''C+''
      else if overall \<ge> 0.60 then ''C''
      else if overall \<ge> 0.55 then ''C-''
      else if overall \<ge> 0.50 then ''D+''
      else if overall \<ge> 0.45 then ''D''
      else ''F'')"

text \<open>
  The loop of \<^verbatim>\<open>calculate_compliance_score\<close> over
  \<^verbatim>\<open>self.metric_definitions.items()\<close>: it stores the category score and appends the
  metric. Constructing a \<open>HealthMetric\<close> reads the clock for \<open>last_updated\<close>;
  \<open>clock k\<close> is the reading number \<open>k\<close> of the run, and the metric number \<open>k\<close> takes it.
  A new metric has the default trend \<open>stable\<close>.
\<close>

fun score_categories ::
  "(nat \<Rightarrow> timestamp) \<Rightarrow> (string \<times> real) list \<Rightarrow> (string \<times> MetricDefinition) list \<Rightarrow>
     ComplianceScore \<Rightarrow> ComplianceScore" where
  "score_categories clock base_metrics [] score = score"
| "score_categories clock base_metrics ((category_name, definition) # rest) score =
     (let category_score = calculate_category_score category_name base_metrics definition;
          metric = \<lparr>metric_name = category_name,
                    metric_category = d_category definition,
                    metric_value = category_score,
                    metric_weight = d_weight definition,
                    metric_status = determine_status category_score (d_thresholds definition),
                    metric_trend = ''stable'',
                    metric_last_updated = clock (length (metrics score))\<rparr>
      in score_categories clock base_metrics rest
           (score\<lparr>category_scores := (category_scores score)(category_name \<mapsto> category_score),
                  metrics := metrics score @ [metric]\<rparr>))"

text \<open>
  \<^verbatim>\<open>sum(score.category_scores[name] * definition["weight"] for name, definition in ...)\<close>;
  subscripting with a key that is not stored raises \<open>KeyError\<close>.
\<close>

fun weighted_overall ::
  "(string \<rightharpoonup> real) \<Rightarrow> (string \<times> MetricDefinition) list \<Rightarrow> error + real" where
  "weighted_overall scores [] = Inr 0"
| "weighted_overall scores ((name, definition) # rest) =
     (case scores name of
        None \<Rightarrow> Inl (KeyError name)
      | Some v \<Rightarrow>
          (case weighted_overall scores rest of
             Inl e \<Rightarrow> Inl e
           | Inr weighted \<Rightarrow> Inr (v * d_weight definition + weighted)))"

section \<open>Trends\<close>

text \<open>The slice \<^verbatim>\<open>xs[-n:]\<close> for a positive \<open>n\<close>: the last \<open>n\<close> elements, or all of them.\<close>

definition last_n :: "nat \<Rightarrow> 'a list \<Rightarrow> 'a list" where
  "last_n n xs = drop (length xs - n) xs"

text \<open>\<^verbatim>\<open>[entry["overall_score"] for entry in entries]\<close>\<close>

fun overall_scores :: "HistoryEntry list \<Rightarrow> error + real list" where
  "overall_scores [] = Inr []"
| "overall_scores (entry # rest) =
     (case entry_overall_score entry of
        None \<Rightarrow> Inl (KeyError ''overall_score'')
      | Some v \<Rightarrow>
          (case overall_scores rest of
             Inl e \<Rightarrow> Inl e
           | Inr vs \<Rightarrow> Inr (v # vs)))"

text \<open>\<^verbatim>\<open>entry.get("category_scores", {}).get(category, 0.5)\<close>\<close>

definition entry_category_score :: "string \<Rightarrow> HistoryEntry \<Rightarrow> real" where
  "entry_category_score cat entry =
     get_default (case entry_category_scores entry of None \<Rightarrow> Map.empty | Some m \<Rightarrow> m) cat 0.5"

text \<open>The loop of \<^verbatim>\<open>_analyze_trends\<close> over the category names.\<close>

fun category_trends ::
  "HistoryEntry list \<Rightarrow> string list \<Rightarrow> (string \<rightharpoonup> string) \<Rightarrow> (string \<rightharpoonup> string)" where
  "category_trends historical_data [] trends = trends"
| "category_trends historical_data (cat # rest) trends =
     (let cat_scores = map (entry_category_score cat) (last_n 3 historical_data)
      in category_trends historical_data rest
           (if length cat_scores \<ge> 2
            then (if last cat_scores > hd cat_scores then trends(cat \<mapsto> ''improving'')
                  else if last cat_scores < hd cat_scores then trends(cat \<mapsto> ''declining'')
                  else trends(cat \<mapsto> ''stable''))
            else trends))"

definition analyze_trends ::
  "HistoryEntry list \<Rightarrow> ComplianceScore \<Rightarrow> error + (string \<rightharpoonup> string)" where
  "analyze_trends historical_data current_score =
     (if length historical_data < 2 then Inr [''overall'' \<mapsto> ''insufficient_data'']
      else
        (case overall_scores (last_n 5 historical_data) of
           Inl e \<Rightarrow> Inl e
         | Inr recent_scores \<Rightarrow>
             (let trends = Map.empty;
                  trends =
                    (if length recent_scores \<ge> 2
                     then (if last recent_scores > hd recent_scores * 1.05
                           then trends(''overall'' \<mapsto> ''improving'')
                           else if last recent_scores < hd recent_scores * 0.95
                           then trends(''overall'' \<mapsto> ''declining'')
                           else trends(''overall'' \<mapsto> ''stable''))
                     else trends)
              in Inr (category_trends historical_data (map fst metric_definitions) trends))))"

definition adjust_score_for_trends :: "ComplianceScore \<Rightarrow> ComplianceScore" where
  "adjust_score_for_trends score =
     (let trend = get_default (trend_analysis score) ''overall'' ''stable'';
          score = (if trend = ''improving''
                   then score\<lparr>overall_score := min 1.0 (overall_score score * 1.02)\<rparr>
                   else if trend = ''declining''
                   then score\<lparr>overall_score := max 0.0 (overall_score score * 0.98)\<rparr>
                   else score)
      in score\<lparr>metrics :=
           map (\<lambda>metric. metric\<lparr>metric_trend :=
                  get_default (trend_analysis score) (metric_name metric) ''stable''\<rparr>)
               (metrics score)\<rparr>)"

section \<open>Recommendations\<close>

text \<open>The body of the loop over \<^verbatim>\<open>score.metrics\<close>: an \<^verbatim>\<open>if/elif/elif\<close> chain.\<close>

definition metric_recommendations :: "HealthMetric \<Rightarrow> recommendation list" where
  "metric_recommendations metric =
     (if metric_status metric = ''critical''
      then [CriticalAttention (metric_name metric) (metric_value metric)]
      else if metric_status metric = ''poor''
      then [BelowThreshold (metric_name metric) (metric_value metric)]
      else if metric_trend metric = ''declining''
      then [IsDeclining (metric_name metric)]
      else [])"

definition generate_recommendations :: "ComplianceScore \<Rightarrow> recommendation list" where
  "generate_recommendations score =
     concat (map metric_recommendations (metrics score))
     @ (if overall_score score < 0.5 then [RunRemediation, ReviewBestPractices] else [])
     @ (if health_grade score \<in> set [''D'', ''F''] then [ComprehensiveReview] else [])
     @ (if overall_score score > 0.85 then [ExcellentHealth] else [])"

section \<open>The history file\<close>

definition history_entry_of :: "timestamp \<Rightarrow> ComplianceScore \<Rightarrow> HistoryEntry" where
  "history_entry_of now score =
     \<lparr>entry_timestamp = Some now,
      entry_overall_score = Some (overall_score score),
      entry_compliance_level = Some (compliance_level score),
      entry_health_grade = Some (health_grade score),
      entry_category_scores = Some (category_scores score),
      entry_trend_analysis = Some (trend_analysis score)\<rparr>"

text \<open>
  Loading the existing history, lines 404 to 410. A file that does not exist gives the
  empty list. Of the exceptions of reading, \<^verbatim>\<open>JSONDecodeError\<close> and
  \<^verbatim>\<open>FileNotFoundError\<close> are caught and give the empty list;
  \<^verbatim>\<open>UnicodeDecodeError\<close>, raised on bytes that are not UTF-8, is not caught.
  JSON that is not a list loads as it is.
\<close>

definition load_history :: "history_file \<Rightarrow> error + json_document" where
  "load_history file =
     (case file of
        Missing \<Rightarrow> Inr (JsonList [])
      | NotUtf8 \<Rightarrow> Inl UnicodeDecodeError
      | Undecodable \<Rightarrow> Inr (JsonList [])
      | StoredOther \<Rightarrow> Inr JsonOther
      | Stored h \<Rightarrow> Inr (JsonList h))"

text \<open>
  \<^verbatim>\<open>_save_to_history\<close>. It raises what loading raises, and
  \<^verbatim>\<open>history.append\<close> raises \<^verbatim>\<open>AttributeError\<close> on a loaded value that is
  not a list; both happen before the file is opened for writing. Writing the file is
  taken to succeed.
\<close>

definition save_to_history ::
  "timestamp \<Rightarrow> ComplianceScore \<Rightarrow> history_file \<Rightarrow> error + history_file" where
  "save_to_history now score file =
     (let history_entry = history_entry_of now score
      in case load_history file of
           Inl e \<Rightarrow> Inl e
         | Inr JsonOther \<Rightarrow> Inl AttributeError
         | Inr (JsonList history) \<Rightarrow>
             (let history = history @ [history_entry];
                  history = last_n 100 history
              in Inr (Stored history)))"

section \<open>The scoring entry point\<close>

text \<open>
  Lines 168 to 201 of \<^verbatim>\<open>calculate_compliance_score\<close>: the score as it stands when
  the trend analysis is reached, with the category scores, the metrics, the weighted
  overall score and the level and grade taken from it.
\<close>

definition score_before_trends ::
  "(nat \<Rightarrow> timestamp) \<Rightarrow> ValidationResult \<Rightarrow> error + ComplianceScore" where
  "score_before_trends clock validation_result =
     (let score = new_ComplianceScore 0.0;
          base_metrics = extract_base_metrics validation_result;
          score = score_categories clock base_metrics metric_definitions score
      in case weighted_overall (category_scores score) metric_definitions of
           Inl e \<Rightarrow> Inl e
         | Inr weighted \<Rightarrow>
             (let score = score\<lparr>overall_score := weighted\<rparr>;
                  score = score\<lparr>compliance_level :=
                                  determine_compliance_level (overall_score score)\<rparr>;
                  score = score\<lparr>health_grade := calculate_health_grade (overall_score score)\<rparr>
              in Inr score))"

text \<open>
  The whole of \<^verbatim>\<open>calculate_compliance_score\<close>. The run takes the clock and the
  history file with its two arguments and returns the score, or the exception raised,
  with the history file as the run leaves it. \<^verbatim>\<open>if historical_data:\<close> holds for a
  list that is given and not empty. Saving to the history is the last step before the
  score is returned, so what it raises is raised by the run. An exception leaves the
  file as it was: the file is written last.
\<close>

definition calculate_compliance_score ::
  "(nat \<Rightarrow> timestamp) \<Rightarrow> history_file \<Rightarrow> ValidationResult \<Rightarrow> HistoryEntry list option \<Rightarrow>
     (error + ComplianceScore) \<times> history_file" where
  "calculate_compliance_score clock file validation_result historical_data =
     (case score_before_trends clock validation_result of
        Inl e \<Rightarrow> (Inl e, file)
      | Inr score \<Rightarrow>
          (case (case historical_data of
                   None \<Rightarrow> Inr score
                 | Some h \<Rightarrow>
                     if h \<noteq> []
                     then (case analyze_trends h score of
                             Inl e \<Rightarrow> Inl e
                           | Inr trends \<Rightarrow>
                               Inr (adjust_score_for_trends (score\<lparr>trend_analysis := trends\<rparr>)))
                     else Inr score) of
             Inl e \<Rightarrow> (Inl e, file)
           | Inr score \<Rightarrow>
               (let score = score\<lparr>recommendations := generate_recommendations score\<rparr>
                in case save_to_history (clock (length (metrics score))) score file of
                     Inl e \<Rightarrow> (Inl e, file)
                   | Inr file' \<Rightarrow> (Inr score, file'))))"

section \<open>Example inputs\<close>

text \<open>Inputs at which the theorems below are instantiated.\<close>

definition scenario_A :: ValidationResult where
  "scenario_A = \<lparr>health_metrics = Some [''structural_health'' \<mapsto> 1.0, ''content_health'' \<mapsto> 1.0,
      ''process_health'' \<mapsto> 1.0, ''security_health'' \<mapsto> 1.0]\<rparr>"

definition scenario_A_with_overall :: ValidationResult where
  "scenario_A_with_overall =
     \<lparr>health_metrics = Some [''structural_health'' \<mapsto> 1.0, ''content_health'' \<mapsto> 1.0,
      ''process_health'' \<mapsto> 1.0, ''security_health'' \<mapsto> 1.0, ''overall_health'' \<mapsto> 1.0]\<rparr>"

definition no_health_metrics :: ValidationResult where
  "no_health_metrics = \<lparr>health_metrics = None\<rparr>"

definition only_overall_health :: "real \<Rightarrow> ValidationResult" where
  "only_overall_health x = \<lparr>health_metrics = Some [''overall_health'' \<mapsto> x]\<rparr>"

definition uniform_health :: "real \<Rightarrow> ValidationResult" where
  "uniform_health x =
     \<lparr>health_metrics = Some [''structural_health'' \<mapsto> x, ''content_health'' \<mapsto> x,
      ''process_health'' \<mapsto> x, ''security_health'' \<mapsto> x, ''overall_health'' \<mapsto> x]\<rparr>"

definition snapshot :: "real \<Rightarrow> real \<Rightarrow> HistoryEntry" where
  "snapshot overall structural =
     \<lparr>entry_timestamp = Some 0, entry_overall_score = Some overall,
      entry_compliance_level = Some ''basic'', entry_health_grade = Some ''F'',
      entry_category_scores = Some [''structural_health'' \<mapsto> structural],
      entry_trend_analysis = Some Map.empty\<rparr>"


definition critical_declining_score :: ComplianceScore where
  "critical_declining_score =
     (new_ComplianceScore 0.5)
       \<lparr>metrics := [\<lparr>metric_name = ''structural_health'', metric_category = STRUCTURAL,
                     metric_value = 0.1, metric_weight = 0.25, metric_status = ''critical'',
                     metric_trend = ''declining'', metric_last_updated = 0\<rparr>]\<rparr>"

section \<open>Scores up to their timestamps\<close>

text \<open>
  The only field of a score that is read from the clock is \<open>last_updated\<close> of its
  metrics; \<open>without_timestamps\<close> resets it, so that two scores can be compared in
  every other field.
\<close>

definition without_timestamps :: "ComplianceScore \<Rightarrow> ComplianceScore" where
  "without_timestamps score =
     score\<lparr>metrics := map (\<lambda>metric. metric\<lparr>metric_last_updated := 0\<rparr>) (metrics score)\<rparr>"

section \<open>The run, phase by phase\<close>

lemma evolution_of_base_metrics:
  "calculate_evolution_health
     [(''structural_health'', s), (''content_health'', c), (''process_health'', p),
      (''security_health'', q), (''overall_health'', oh)]
   = min 1 (0.8 + 0.2 * ((s + c + p + q + oh) / 5))"
  by (simp add: calculate_evolution_health_def Let_def add.assoc)

lemma base_metrics_shape:
  "\<exists>s c p q oh. extract_base_metrics vr =
     [(''structural_health'', s), (''content_health'', c), (''process_health'', p),
      (''security_health'', q), (''overall_health'', oh)]"
  by (simp add: extract_base_metrics_def Let_def)

lemma score_categories_eq:
  assumes "ev = calculate_evolution_health
     [(''structural_health'', s), (''content_health'', c), (''process_health'', p),
      (''security_health'', q), (''overall_health'', oh)]"
  shows "score_categories clock
     [(''structural_health'', s), (''content_health'', c), (''process_health'', p),
      (''security_health'', q), (''overall_health'', oh)]
     metric_definitions (new_ComplianceScore x) =
   \<lparr>overall_score = x,
    category_scores = [''structural_health'' \<mapsto> s, ''content_health'' \<mapsto> c,
      ''process_health'' \<mapsto> p, ''security_health'' \<mapsto> q,
      ''evolution_health'' \<mapsto> ev],
    metrics =
      [\<lparr>metric_name = ''structural_health'', metric_category = STRUCTURAL, metric_value = s,
        metric_weight = 0.25,
        metric_status = determine_status s
          \<lparr>excellent = 0.95, good = 0.85, fair = 0.70, poor = 0.50, critical = 0.30\<rparr>,
        metric_trend = ''stable'', metric_last_updated = clock 0\<rparr>,
       \<lparr>metric_name = ''content_health'', metric_category = CONTENT, metric_value = c,
        metric_weight = 0.25,
        metric_status = determine_status c
          \<lparr>excellent = 0.90, good = 0.80, fair = 0.65, poor = 0.45, critical = 0.25\<rparr>,
        metric_trend = ''stable'', metric_last_updated = clock 1\<rparr>,
       \<lparr>metric_name = ''process_health'', metric_category = PROCESS, metric_value = p,
        metric_weight = 0.20,
        metric_status = determine_status p
          \<lparr>excellent = 0.85, good = 0.70, fair = 0.55, poor = 0.35, critical = 0.20\<rparr>,
        metric_trend = ''stable'', metric_last_updated = clock 2\<rparr>,
       \<lparr>metric_name = ''security_health'', metric_category = SECURITY, metric_value = q,
        metric_weight = 0.15,
        metric_status = determine_status q
          \<lparr>excellent = 0.90, good = 0.75, fair = 0.60, poor = 0.40, critical = 0.20\<rparr>,
        metric_trend = ''stable'', metric_last_updated = clock 3\<rparr>,
       \<lparr>metric_name = ''evolution_health'', metric_category = EVOLUTION,
        metric_value = ev,
        metric_weight = 0.15,
        metric_status = determine_status (ev)
          \<lparr>excellent = 0.80, good = 0.65, fair = 0.50, poor = 0.35, critical = 0.20\<rparr>,
        metric_trend = ''stable'', metric_last_updated = clock 4\<rparr>],
    compliance_level = ''basic'', health_grade = ''C'',
    trend_analysis = Map.empty, recommendations = []\<rparr>"
  unfolding assms
  by (simp add: metric_definitions_def load_metric_definitions_def new_ComplianceScore_def
      calculate_category_score_def Let_def eval_nat_numeral)

lemma weighted_overall_eq:
  "weighted_overall
     [''structural_health'' \<mapsto> s, ''content_health'' \<mapsto> c, ''process_health'' \<mapsto> p,
      ''security_health'' \<mapsto> q, ''evolution_health'' \<mapsto> e] metric_definitions
   = Inr (s * 0.25 + c * 0.25 + p * 0.20 + q * 0.15 + e * 0.15)"
  by (simp add: metric_definitions_def load_metric_definitions_def)

lemma score_before_trends_fields:
  assumes "extract_base_metrics vr =
     [(''structural_health'', s), (''content_health'', c), (''process_health'', p),
      (''security_health'', q), (''overall_health'', oh)]"
    and "ev = min 1 (0.8 + 0.2 * ((s + c + p + q + oh) / 5))"
  obtains s0 where "score_before_trends clock vr = Inr s0"
    and "overall_score s0 = s * 0.25 + c * 0.25 + p * 0.20 + q * 0.15 + ev * 0.15"
    and "category_scores s0 =
           [''structural_health'' \<mapsto> s, ''content_health'' \<mapsto> c,
            ''process_health'' \<mapsto> p, ''security_health'' \<mapsto> q,
            ''evolution_health'' \<mapsto> ev]"
    and "compliance_level s0 = determine_compliance_level (overall_score s0)"
    and "health_grade s0 = calculate_health_grade (overall_score s0)"
    and "trend_analysis s0 = Map.empty"
    and "recommendations s0 = []"
    and "metrics s0 =
      [\<lparr>metric_name = ''structural_health'', metric_category = STRUCTURAL, metric_value = s,
        metric_weight = 0.25,
        metric_status = determine_status s
          \<lparr>excellent = 0.95, good = 0.85, fair = 0.70, poor = 0.50, critical = 0.30\<rparr>,
        metric_trend = ''stable'', metric_last_updated = clock 0\<rparr>,
       \<lparr>metric_name = ''content_health'', metric_category = CONTENT, metric_value = c,
        metric_weight = 0.25,
        metric_status = determine_status c
          \<lparr>excellent = 0.90, good = 0.80, fair = 0.65, poor = 0.45, critical = 0.25\<rparr>,
        metric_trend = ''stable'', metric_last_updated = clock 1\<rparr>,
       \<lparr>metric_name = ''process_health'', metric_category = PROCESS, metric_value = p,
        metric_weight = 0.20,
        metric_status = determine_status p
          \<lparr>excellent = 0.85, good = 0.70, fair = 0.55, poor = 0.35, critical = 0.20\<rparr>,
        metric_trend = ''stable'', metric_last_updated = clock 2\<rparr>,
       \<lparr>metric_name = ''security_health'', metric_category = SECURITY, metric_value = q,
        metric_weight = 0.15,
        metric_status = determine_status q
          \<lparr>excellent = 0.90, good = 0.75, fair = 0.60, poor = 0.40, critical = 0.20\<rparr>,
        metric_trend = ''stable'', metric_last_updated = clock 3\<rparr>,
       \<lparr>metric_name = ''evolution_health'', metric_category = EVOLUTION,
        metric_value = ev,
        metric_weight = 0.15,
        metric_status = determine_status (ev)
          \<lparr>excellent = 0.80, good = 0.65, fair = 0.50, poor = 0.35, critical = 0.20\<rparr>,
        metric_trend = ''stable'', metric_last_updated = clock 4\<rparr>]"
proof -
  have ev: "ev = calculate_evolution_health
     [(''structural_health'', s), (''content_health'', c), (''process_health'', p),
      (''security_health'', q), (''overall_health'', oh)]"
    by (simp only: assms(2) evolution_of_base_metrics)
  note sc = score_categories_eq [OF ev, of clock]
  have sbt: "score_before_trends clock vr =
      Inr ((score_categories clock (extract_base_metrics vr) metric_definitions
             (new_ComplianceScore 0.0))
           \<lparr>overall_score := s * 0.25 + c * 0.25 + p * 0.20 + q * 0.15 + ev * 0.15,
            compliance_level := determine_compliance_level
              (s * 0.25 + c * 0.25 + p * 0.20 + q * 0.15 + ev * 0.15),
            health_grade := calculate_health_grade
              (s * 0.25 + c * 0.25 + p * 0.20 + q * 0.15 + ev * 0.15)\<rparr>)"
    unfolding score_before_trends_def Let_def assms(1) sc
    by (simp add: weighted_overall_eq)
  show thesis
    by (rule that [OF sbt]) (simp_all add: assms(1) sc)
qed

lemma score_before_trends_returns: "\<exists>s0. score_before_trends clock vr = Inr s0"
proof -
  obtain s c p q oh where "extract_base_metrics vr =
     [(''structural_health'', s), (''content_health'', c), (''process_health'', p),
      (''security_health'', q), (''overall_health'', oh)]"
    using base_metrics_shape by blast
  from score_before_trends_fields [OF this refl] show ?thesis by blast
qed

lemma adjust_score_for_trends_fields:
  "category_scores (adjust_score_for_trends sc) = category_scores sc"
  "compliance_level (adjust_score_for_trends sc) = compliance_level sc"
  "health_grade (adjust_score_for_trends sc) = health_grade sc"
  "trend_analysis (adjust_score_for_trends sc) = trend_analysis sc"
  "recommendations (adjust_score_for_trends sc) = recommendations sc"
  "length (metrics (adjust_score_for_trends sc)) = length (metrics sc)"
  by (simp_all add: adjust_score_for_trends_def Let_def)

lemma adjust_score_for_trends_metrics:
  "metrics (adjust_score_for_trends sc) =
     map (\<lambda>metric. metric\<lparr>metric_trend :=
            get_default (trend_analysis sc) (metric_name metric) ''stable''\<rparr>) (metrics sc)"
  by (simp add: adjust_score_for_trends_def Let_def)

lemma adjust_score_for_trends_overall:
  "overall_score (adjust_score_for_trends sc) =
     (if trend_analysis sc ''overall'' = Some ''improving''
      then min 1 (overall_score sc * 1.02)
      else if trend_analysis sc ''overall'' = Some ''declining''
      then max 0 (overall_score sc * 0.98)
      else overall_score sc)"
  by (simp add: adjust_score_for_trends_def Let_def get_default_def split: option.splits)

lemma category_trends_other_key:
  "k \<notin> set cats \<Longrightarrow> category_trends h cats trends k = trends k"
  by (induction cats arbitrary: trends) (auto simp: Let_def)

lemma analyze_trends_short:
  "length h < 2 \<Longrightarrow> analyze_trends h sc = Inr [''overall'' \<mapsto> ''insufficient_data'']"
  by (simp add: analyze_trends_def)

lemma analyze_trends_ignores_score: "analyze_trends h sc = analyze_trends h sc'"
  by (simp add: analyze_trends_def)


lemma analyze_trends_returns:
  "overall_scores (last_n 5 h) = Inr rs \<Longrightarrow> \<exists>t. analyze_trends h sc = Inr t"
  by (simp add: analyze_trends_def Let_def)

lemma load_history_Missing: "load_history Missing = Inr (JsonList [])"
  by (simp add: load_history_def)

lemma load_history_Stored: "load_history (Stored h) = Inr (JsonList h)"
  by (simp add: load_history_def)

lemma save_to_history_returns:
  "load_history file = Inr (JsonList old) \<Longrightarrow>
   save_to_history now sc file = Inr (Stored (last_n 100 (old @ [history_entry_of now sc])))"
  by (simp add: save_to_history_def Let_def)

lemma save_to_history_cases:
  obtains (loaded) old where "load_history file = Inr (JsonList old)"
  | (raises) e where "\<And>now sc. save_to_history now sc file = Inl e"
  by (cases "file") (simp_all add: load_history_def save_to_history_def)

lemma run_unfold:
  assumes "score_before_trends clock vr = Inr s0"
  shows "calculate_compliance_score clock file vr hist =
     (case (case hist of
              None \<Rightarrow> Inr s0
            | Some h \<Rightarrow>
                if h \<noteq> []
                then (case analyze_trends h s0 of
                        Inl e \<Rightarrow> Inl e
                      | Inr t \<Rightarrow> Inr (adjust_score_for_trends (s0\<lparr>trend_analysis := t\<rparr>)))
                else Inr s0) of
        Inl e \<Rightarrow> (Inl e, file)
      | Inr score \<Rightarrow>
          (case save_to_history (clock (length (metrics score)))
                  (score\<lparr>recommendations := generate_recommendations score\<rparr>) file of
             Inl e \<Rightarrow> (Inl e, file)
           | Inr file' \<Rightarrow>
               (Inr (score\<lparr>recommendations := generate_recommendations score\<rparr>), file')))"
  by (simp add: calculate_compliance_score_def assms Let_def split: sum.splits)

lemma run_without_history:
  assumes "score_before_trends clock vr = Inr s0" and "hist = None \<or> hist = Some []"
    and "load_history file = Inr (JsonList old)"
  shows "calculate_compliance_score clock file vr hist =
     (Inr (s0\<lparr>recommendations := generate_recommendations s0\<rparr>),
      Stored (last_n 100 (old @ [history_entry_of (clock (length (metrics s0)))
        (s0\<lparr>recommendations := generate_recommendations s0\<rparr>)])))"
  using assms(2)
  by (auto simp: run_unfold [OF assms(1)] save_to_history_returns [OF assms(3)])

lemma run_with_history:
  assumes "score_before_trends clock vr = Inr s0" and "h \<noteq> []"
    and "analyze_trends h s0 = Inr t"
    and "load_history file = Inr (JsonList old)"
  shows "calculate_compliance_score clock file vr (Some h) =
     (Inr ((adjust_score_for_trends (s0\<lparr>trend_analysis := t\<rparr>))
            \<lparr>recommendations :=
               generate_recommendations (adjust_score_for_trends (s0\<lparr>trend_analysis := t\<rparr>))\<rparr>),
      Stored (last_n 100 (old @ [history_entry_of (clock (length (metrics s0)))
        ((adjust_score_for_trends (s0\<lparr>trend_analysis := t\<rparr>))
            \<lparr>recommendations :=
               generate_recommendations
                 (adjust_score_for_trends (s0\<lparr>trend_analysis := t\<rparr>))\<rparr>)])))"
  using assms(2,3)
  by (simp add: run_unfold [OF assms(1)] save_to_history_returns [OF assms(4)]
      adjust_score_for_trends_fields)

lemma run_raises:
  assumes "score_before_trends clock vr = Inr s0" and "h \<noteq> []"
    and "analyze_trends h s0 = Inl e"
  shows "calculate_compliance_score clock file vr (Some h) = (Inl e, file)"
  using assms(2,3) by (simp add: run_unfold [OF assms(1)])

lemma run_save_raises:
  assumes "score_before_trends clock vr = Inr s0"
    and "\<And>now sc. save_to_history now sc file = Inl e"
  shows "calculate_compliance_score clock file vr hist =
     (Inl (case hist of
             None \<Rightarrow> e
           | Some h \<Rightarrow>
               if h \<noteq> []
               then (case analyze_trends h s0 of Inl e' \<Rightarrow> e' | Inr t \<Rightarrow> e)
               else e),
      file)"
  by (simp add: run_unfold [OF assms(1)] assms(2) split: option.splits sum.splits)

lemma run_cases:
  assumes "fst (calculate_compliance_score clock file vr hist) = Inr sc"
  obtains s0 where "score_before_trends clock vr = Inr s0"
      and "hist = None \<or> hist = Some []"
      and "sc = s0\<lparr>recommendations := generate_recommendations s0\<rparr>"
  | s0 h t where "score_before_trends clock vr = Inr s0"
      and "hist = Some h" and "h \<noteq> []" and "analyze_trends h s0 = Inr t"
      and "sc = (adjust_score_for_trends (s0\<lparr>trend_analysis := t\<rparr>))
            \<lparr>recommendations :=
               generate_recommendations (adjust_score_for_trends (s0\<lparr>trend_analysis := t\<rparr>))\<rparr>"
proof -
  obtain s0 where s0: "score_before_trends clock vr = Inr s0"
    using score_before_trends_returns by blast
  show thesis
  proof (cases "file" rule: save_to_history_cases)
    case (raises e)
    from run_save_raises [OF s0 raises, of hist] assms show ?thesis by simp
  next
    case (loaded old)
    show ?thesis
    proof (cases "hist = None \<or> hist = Some []")
      case True
      with assms s0 that(1) show ?thesis
        by (simp add: run_without_history [OF s0 True loaded])
    next
      case False
      then obtain h where h: "hist = Some h" "h \<noteq> []" by auto
      show ?thesis
      proof (cases "analyze_trends h s0")
        case (Inl e)
        with assms s0 h show ?thesis by (simp add: run_raises)
      next
        case (Inr t)
        with assms s0 h that(2) show ?thesis
          by (simp add: run_with_history [OF s0 h(2) Inr loaded])
      qed
    qed
  qed
qed

lemma run_returned:
  "\<not> isl (fst (calculate_compliance_score clock file vr hist)) \<Longrightarrow>
   fst (calculate_compliance_score clock file vr hist) =
     Inr (projr (fst (calculate_compliance_score clock file vr hist)))"
  by (cases "fst (calculate_compliance_score clock file vr hist)") auto

lemma run_result_fields:
  assumes "fst (calculate_compliance_score clock file vr hist) = Inr sc"
  obtains s0 where "score_before_trends clock vr = Inr s0"
    and "category_scores sc = category_scores s0"
    and "compliance_level sc = compliance_level s0"
    and "health_grade sc = health_grade s0"
    and "overall_score sc =
           overall_score (adjust_score_for_trends (s0\<lparr>trend_analysis := trend_analysis sc\<rparr>))"
    and "metrics sc = metrics s0 \<or>
         metrics sc = map (\<lambda>metric. metric\<lparr>metric_trend :=
            get_default (trend_analysis sc) (metric_name metric) ''stable''\<rparr>) (metrics s0)"
proof (rule run_cases [OF assms])
  fix s0 assume a: "score_before_trends clock vr = Inr s0" "hist = None \<or> hist = Some []"
    "sc = s0\<lparr>recommendations := generate_recommendations s0\<rparr>"
  obtain s c p q oh where bm: "extract_base_metrics vr =
     [(''structural_health'', s), (''content_health'', c), (''process_health'', p),
      (''security_health'', q), (''overall_health'', oh)]"
    using base_metrics_shape by blast
  obtain s1 where "score_before_trends clock vr = Inr s1" and "trend_analysis s1 = Map.empty"
    using score_before_trends_fields [OF bm refl, of clock] by blast
  with a(1) have "trend_analysis s0 = Map.empty" by simp
  with a show thesis
    by (intro that [of s0]) (simp_all add: adjust_score_for_trends_overall)
next
  fix s0 h t
  assume a: "score_before_trends clock vr = Inr s0" "hist = Some h" "h \<noteq> []"
    "analyze_trends h s0 = Inr t"
    "sc = (adjust_score_for_trends (s0\<lparr>trend_analysis := t\<rparr>))
            \<lparr>recommendations :=
               generate_recommendations (adjust_score_for_trends (s0\<lparr>trend_analysis := t\<rparr>))\<rparr>"
  then show thesis
    by (intro that [of s0]) (simp_all add: adjust_score_for_trends_fields
        adjust_score_for_trends_overall adjust_score_for_trends_metrics)
qed

lemma score_before_trends_metrics:
  assumes bm: "extract_base_metrics vr =
     [(''structural_health'', s), (''content_health'', c), (''process_health'', p),
      (''security_health'', q), (''overall_health'', oh)]"
    and ev: "ev = min 1 (0.8 + 0.2 * ((s + c + p + q + oh) / 5))"
    and s0: "score_before_trends clock vr = Inr s0"
  shows "map metric_name (metrics s0) = map fst metric_definitions"
    and "map metric_value (metrics s0) = [s, c, p, q, ev]"
    and "last (map metric_status (metrics s0)) =
           determine_status ev \<lparr>excellent = 0.80, good = 0.65, fair = 0.50, poor = 0.35,
             critical = 0.20\<rparr>"
    and "length (metrics s0) = 5"
proof -
  obtain s1 where s1: "score_before_trends clock vr = Inr s1"
    and m: "metrics s1 =
      [\<lparr>metric_name = ''structural_health'', metric_category = STRUCTURAL, metric_value = s,
        metric_weight = 0.25,
        metric_status = determine_status s
          \<lparr>excellent = 0.95, good = 0.85, fair = 0.70, poor = 0.50, critical = 0.30\<rparr>,
        metric_trend = ''stable'', metric_last_updated = clock 0\<rparr>,
       \<lparr>metric_name = ''content_health'', metric_category = CONTENT, metric_value = c,
        metric_weight = 0.25,
        metric_status = determine_status c
          \<lparr>excellent = 0.90, good = 0.80, fair = 0.65, poor = 0.45, critical = 0.25\<rparr>,
        metric_trend = ''stable'', metric_last_updated = clock 1\<rparr>,
       \<lparr>metric_name = ''process_health'', metric_category = PROCESS, metric_value = p,
        metric_weight = 0.20,
        metric_status = determine_status p
          \<lparr>excellent = 0.85, good = 0.70, fair = 0.55, poor = 0.35, critical = 0.20\<rparr>,
        metric_trend = ''stable'', metric_last_updated = clock 2\<rparr>,
       \<lparr>metric_name = ''security_health'', metric_category = SECURITY, metric_value = q,
        metric_weight = 0.15,
        metric_status = determine_status q
          \<lparr>excellent = 0.90, good = 0.75, fair = 0.60, poor = 0.40, critical = 0.20\<rparr>,
        metric_trend = ''stable'', metric_last_updated = clock 3\<rparr>,
       \<lparr>metric_name = ''evolution_health'', metric_category = EVOLUTION,
        metric_value = ev,
        metric_weight = 0.15,
        metric_status = determine_status ev
          \<lparr>excellent = 0.80, good = 0.65, fair = 0.50, poor = 0.35, critical = 0.20\<rparr>,
        metric_trend = ''stable'', metric_last_updated = clock 4\<rparr>]"
    using score_before_trends_fields [OF bm ev, of clock] by blast
  from s0 s1 have eq: "s1 = s0" by simp
  show "map metric_name (metrics s0) = map fst metric_definitions"
    unfolding eq [symmetric] m
    by (simp add: metric_definitions_def load_metric_definitions_def)
  show "map metric_value (metrics s0) = [s, c, p, q, ev]"
    unfolding eq [symmetric] m by simp
  show "last (map metric_status (metrics s0)) =
           determine_status ev \<lparr>excellent = 0.80, good = 0.65, fair = 0.50, poor = 0.35,
             critical = 0.20\<rparr>"
    unfolding eq [symmetric] m by simp
  show "length (metrics s0) = 5"
    unfolding eq [symmetric] m by simp
qed

lemma run_result_metrics:
  assumes "fst (calculate_compliance_score clock file vr hist) = Inr sc"
    and "score_before_trends clock vr = Inr s0"
  shows "map metric_name (metrics sc) = map metric_name (metrics s0)"
    and "map metric_value (metrics sc) = map metric_value (metrics s0)"
    and "map metric_status (metrics sc) = map metric_status (metrics s0)"
    and "map metric_category (metrics sc) = map metric_category (metrics s0)"
    and "map metric_weight (metrics sc) = map metric_weight (metrics s0)"
    and "map metric_last_updated (metrics sc) = map metric_last_updated (metrics s0)"
proof -
  obtain s1 where "score_before_trends clock vr = Inr s1"
    and "metrics sc = metrics s1 \<or>
         metrics sc = map (\<lambda>metric. metric\<lparr>metric_trend :=
            get_default (trend_analysis sc) (metric_name metric) ''stable''\<rparr>) (metrics s1)"
    using run_result_fields [OF assms(1)] by blast
  with assms(2) have m: "metrics sc = metrics s0 \<or>
         metrics sc = map (\<lambda>metric. metric\<lparr>metric_trend :=
            get_default (trend_analysis sc) (metric_name metric) ''stable''\<rparr>) (metrics s0)"
    by simp
  from m show "map metric_name (metrics sc) = map metric_name (metrics s0)"
    by (auto simp: comp_def)
  from m show "map metric_value (metrics sc) = map metric_value (metrics s0)"
    by (auto simp: comp_def)
  from m show "map metric_status (metrics sc) = map metric_status (metrics s0)"
    by (auto simp: comp_def)
  from m show "map metric_category (metrics sc) = map metric_category (metrics s0)"
    by (auto simp: comp_def)
  from m show "map metric_weight (metrics sc) = map metric_weight (metrics s0)"
    by (auto simp: comp_def)
  from m show "map metric_last_updated (metrics sc) = map metric_last_updated (metrics s0)"
    by (auto simp: comp_def)
qed

lemma run_returns:
  assumes "hist = None \<or>
     (\<exists>h. hist = Some h \<and> (length h < 2 \<or> \<not> isl (overall_scores (last_n 5 h))))"
    and loaded: "load_history file = Inr (JsonList old)"
  shows "\<exists>sc. fst (calculate_compliance_score clock file vr hist) = Inr sc"
proof -
  obtain s0 where s0: "score_before_trends clock vr = Inr s0"
    using score_before_trends_returns by blast
  show ?thesis
  proof (cases "hist = None \<or> hist = Some []")
    case True
    then show ?thesis using run_without_history [OF s0 True loaded] by simp
  next
    case False
    with assms(1) obtain h where h: "hist = Some h" "h \<noteq> []"
      and r: "length h < 2 \<or> \<not> isl (overall_scores (last_n 5 h))"
      by auto
    from r obtain t where "analyze_trends h s0 = Inr t"
    proof
      assume "length h < 2"
      then show ?thesis using analyze_trends_short that by blast
    next
      assume "\<not> isl (overall_scores (last_n 5 h))"
      then obtain rs where "overall_scores (last_n 5 h) = Inr rs"
        by (cases "overall_scores (last_n 5 h)") auto
      then show ?thesis using analyze_trends_returns that by blast
    qed
    from run_with_history [OF s0 h(2) this loaded] h(1) show ?thesis by simp
  qed
qed

lemma overall_scores_length: "overall_scores xs = Inr rs \<Longrightarrow> length rs = length xs"
  by (induction xs arbitrary: rs) (auto split: option.splits sum.splits)

lemma analyze_trends_overall:
  assumes "2 \<le> length h" and "overall_scores (last_n 5 h) = Inr rs"
  shows "\<exists>t. analyze_trends h sc = Inr t \<and>
     t ''overall'' = Some (if last rs > hd rs * 1.05 then ''improving''
                           else if last rs < hd rs * 0.95 then ''declining''
                           else ''stable'')"
proof -
  have "length rs = length (last_n 5 h)"
    using assms(2) by (rule overall_scores_length)
  with assms(1) have len: "2 \<le> length rs"
    by (simp add: last_n_def)
  have notcat: "''overall'' \<notin> set (map fst metric_definitions)"
    by (simp add: metric_definitions_def load_metric_definitions_def)
  show ?thesis
    using assms len
    by (simp add: analyze_trends_def Let_def category_trends_other_key [OF notcat])
qed

lemma run_trend_analysis:
  assumes "fst (calculate_compliance_score clock file vr (Some h)) = Inr sc" and "h \<noteq> []"
    and "analyze_trends h s = Inr t"
  shows "trend_analysis sc = t"
proof (rule run_cases [OF assms(1)])
  fix s0 assume "Some h = None \<or> Some h = Some []"
  with assms(2) show ?thesis by simp
next
  fix s0 h' t'
  assume a: "Some h = Some h'" "analyze_trends h' s0 = Inr t'"
    "sc = (adjust_score_for_trends (s0\<lparr>trend_analysis := t'\<rparr>))
            \<lparr>recommendations :=
               generate_recommendations (adjust_score_for_trends (s0\<lparr>trend_analysis := t'\<rparr>))\<rparr>"
  from a(1,2) assms(3) have "t' = t"
    using analyze_trends_ignores_score [of h s s0] by simp
  with a(3) show ?thesis by (simp add: adjust_score_for_trends_fields)
qed

lemma run_recommendations:
  assumes "fst (calculate_compliance_score clock file vr hist) = Inr sc"
  shows "recommendations sc = generate_recommendations sc"
  by (rule run_cases [OF assms]) (simp_all add: generate_recommendations_def)

lemma last_n_100_append:
  "last_n 100 (old @ [e]) = drop (length old - 99) old @ [e]"
  by (simp add: last_n_def)

lemma run_history_file:
  assumes "calculate_compliance_score clock file vr hist = (Inr sc, file')"
  shows "\<exists>old. load_history file = Inr (JsonList old)
     \<and> file' = Stored (drop (length old - 99) old @ [history_entry_of (clock 5) sc])"
proof -
  obtain s c p q oh where bm: "extract_base_metrics vr =
     [(''structural_health'', s), (''content_health'', c), (''process_health'', p),
      (''security_health'', q), (''overall_health'', oh)]"
    using base_metrics_shape by blast
  obtain s0 where s0: "score_before_trends clock vr = Inr s0"
    using score_before_trends_returns by blast
  note len = score_before_trends_metrics(4) [OF bm refl s0]
  from assms have ret: "fst (calculate_compliance_score clock file vr hist) = Inr sc" by simp
  show ?thesis
  proof (cases "file" rule: save_to_history_cases)
    case (raises e)
    from run_save_raises [OF s0 raises, of hist] assms show ?thesis by simp
  next
    case (loaded old)
    show ?thesis
    proof (cases "hist = None \<or> hist = Some []")
      case True
      from run_without_history [OF s0 True loaded] assms loaded len
      show ?thesis by (auto simp: last_n_100_append)
    next
      case False
      then obtain h where h: "hist = Some h" "h \<noteq> []" by auto
      show ?thesis
      proof (cases "analyze_trends h s0")
        case (Inl e)
        from run_raises [OF s0 h(2) Inl, of "file"] assms h(1) show ?thesis by simp
      next
        case (Inr t)
        from run_with_history [OF s0 h(2) Inr loaded] assms h(1) loaded len
        show ?thesis by (auto simp: last_n_100_append)
      qed
    qed
  qed
qed

lemma run_raised_keeps_file:
  assumes "calculate_compliance_score clock file vr hist = (Inl e, file')"
  shows "file' = file"
proof -
  obtain s0 where s0: "score_before_trends clock vr = Inr s0"
    using score_before_trends_returns by blast
  from assms show ?thesis
    unfolding run_unfold [OF s0]
    by (auto split: sum.splits option.splits if_splits)
qed

lemma metric_recommendations_last_updated:
  "metric_recommendations (m\<lparr>metric_last_updated := x\<rparr>) = metric_recommendations m"
  by (simp add: metric_recommendations_def)

lemma generate_recommendations_without_timestamps:
  "generate_recommendations (without_timestamps sc) = generate_recommendations sc"
  by (simp add: generate_recommendations_def without_timestamps_def comp_def
      metric_recommendations_last_updated)

lemma adjust_score_for_trends_without_timestamps:
  "without_timestamps (adjust_score_for_trends sc) =
     adjust_score_for_trends (without_timestamps sc)"
  by (simp add: adjust_score_for_trends_def without_timestamps_def Let_def comp_def)

lemma without_timestamps_updates:
  "without_timestamps (sc\<lparr>recommendations := r\<rparr>) = (without_timestamps sc)\<lparr>recommendations := r\<rparr>"
  "without_timestamps (sc\<lparr>trend_analysis := t\<rparr>) = (without_timestamps sc)\<lparr>trend_analysis := t\<rparr>"
  by (simp_all add: without_timestamps_def)

lemma score_before_trends_without_timestamps:
  assumes "score_before_trends clock vr = Inr s0" and "score_before_trends clock' vr = Inr s0'"
  shows "without_timestamps s0 = without_timestamps s0'"
proof -
  obtain s c p q oh where bm: "extract_base_metrics vr =
     [(''structural_health'', s), (''content_health'', c), (''process_health'', p),
      (''security_health'', q), (''overall_health'', oh)]"
    using base_metrics_shape by blast
  have a: "\<And>x. score_before_trends clock vr = Inr x \<Longrightarrow> x = s0"
    and b: "\<And>x. score_before_trends clock' vr = Inr x \<Longrightarrow> x = s0'"
    using assms by simp_all
  show ?thesis
    apply (rule score_before_trends_fields [OF bm refl, of clock])
    apply (rule score_before_trends_fields [OF bm refl, of clock'])
    apply (drule a, drule b)
    apply (rule ComplianceScore.equality)
    apply (simp_all add: without_timestamps_def)
    done
qed

lemma run_without_timestamps:
  "map_sum id without_timestamps (fst (calculate_compliance_score clock file vr hist)) =
   map_sum id without_timestamps (fst (calculate_compliance_score clock' file vr hist))"
proof -
  obtain s0 where s0: "score_before_trends clock vr = Inr s0"
    using score_before_trends_returns by blast
  obtain s0' where s0': "score_before_trends clock' vr = Inr s0'"
    using score_before_trends_returns by blast
  note eq = score_before_trends_without_timestamps [OF s0 s0']
  show ?thesis
  proof (cases "file" rule: save_to_history_cases)
    case (raises e)
    show ?thesis
      unfolding run_save_raises [OF s0 raises] run_save_raises [OF s0' raises]
      by (simp only: analyze_trends_ignores_score [of _ s0 s0'])
  next
    case (loaded old)
    show ?thesis
    proof (cases "hist = None \<or> hist = Some []")
      case True
      show ?thesis
        unfolding run_without_history [OF s0 True loaded]
          run_without_history [OF s0' True loaded]
        by (simp add: without_timestamps_updates eq
            generate_recommendations_without_timestamps [of s0, symmetric]
            generate_recommendations_without_timestamps [of s0', symmetric])
    next
      case False
      then obtain h where h: "hist = Some h" "h \<noteq> []" by auto
      show ?thesis
      proof (cases "analyze_trends h s0")
        case (Inl e)
        then have "analyze_trends h s0' = Inl e"
          using analyze_trends_ignores_score [of h s0 s0'] by simp
        with Inl show ?thesis
          unfolding h(1) run_raises [OF s0 h(2) Inl] by (simp add: run_raises [OF s0' h(2)])
      next
        case (Inr t)
        then have Inr': "analyze_trends h s0' = Inr t"
          using analyze_trends_ignores_score [of h s0 s0'] by simp
        have "without_timestamps (adjust_score_for_trends (s0\<lparr>trend_analysis := t\<rparr>)) =
            without_timestamps (adjust_score_for_trends (s0'\<lparr>trend_analysis := t\<rparr>))"
          by (simp add: adjust_score_for_trends_without_timestamps without_timestamps_updates eq)
        then show ?thesis
          unfolding h(1) run_with_history [OF s0 h(2) Inr loaded]
            run_with_history [OF s0' h(2) Inr' loaded]
          by (simp add: without_timestamps_updates
            generate_recommendations_without_timestamps
              [of "adjust_score_for_trends (s0\<lparr>trend_analysis := t\<rparr>)", symmetric]
            generate_recommendations_without_timestamps
              [of "adjust_score_for_trends (s0'\<lparr>trend_analysis := t\<rparr>)", symmetric])
      qed
    qed
  qed
qed

lemma run_same_on_loaded_files:
  assumes "load_history file = Inr (JsonList old)" and "load_history file' = Inr (JsonList old')"
  shows "fst (calculate_compliance_score clock file vr hist) =
     fst (calculate_compliance_score clock file' vr hist)"
proof -
  obtain s0 where s0: "score_before_trends clock vr = Inr s0"
    using score_before_trends_returns by blast
  show ?thesis
    unfolding run_unfold [OF s0]
    by (simp add: save_to_history_returns [OF assms(1)] save_to_history_returns [OF assms(2)]
        split: sum.splits option.splits)
qed

section \<open>The claims\<close>

text \<open>
  C1, as the code has it. In every score a run returns, the evolution category score is
  \<open>min 1 (0.8 + 0.2 * mean)\<close>, where the mean is taken over the five base metrics that
  \<^verbatim>\<open>_extract_base_metrics\<close> builds: the four raw category scores and
  \<open>overall_health\<close>, each \<open>0.0\<close> when absent. When all five base metrics are
  \<open>1.0\<close> the returned score has evolution \<open>1.0\<close>, level \<open>exemplary\<close> and grade
  \<open>A+\<close>, and overall score \<open>1.0\<close> when the run has no history. With the four raw
  scores at \<open>1.0\<close> and no \<open>overall_health\<close> the evolution score is \<open>0.96\<close> and the
  overall score \<open>0.994\<close> (the counterexample).
\<close>

theorem evolution_score_from_base_metrics:
  assumes bm: "extract_base_metrics vr =
     [(''structural_health'', s), (''content_health'', c), (''process_health'', p),
      (''security_health'', q), (''overall_health'', oh)]"
    and ret: "fst (calculate_compliance_score clock file vr hist) = Inr sc"
  shows "category_scores sc ''evolution_health'' =
           Some (min 1 (0.8 + 0.2 * ((s + c + p + q + oh) / 5)))
       \<and> (s = 1 \<and> c = 1 \<and> p = 1 \<and> q = 1 \<and> oh = 1 \<longrightarrow>
            category_scores sc ''evolution_health'' = Some 1
            \<and> compliance_level sc = ''exemplary''
            \<and> health_grade sc = ''A+''
            \<and> (hist = None \<or> hist = Some [] \<longrightarrow> overall_score sc = 1))"
proof -
  define ev where "ev = min (1::real) (0.8 + 0.2 * ((s + c + p + q + oh) / 5))"
  obtain s0 where s0: "score_before_trends clock vr = Inr s0"
    and ov: "overall_score s0 = s * 0.25 + c * 0.25 + p * 0.20 + q * 0.15 + ev * 0.15"
    and cs: "category_scores s0 =
           [''structural_health'' \<mapsto> s, ''content_health'' \<mapsto> c,
            ''process_health'' \<mapsto> p, ''security_health'' \<mapsto> q,
            ''evolution_health'' \<mapsto> ev]"
    and lv: "compliance_level s0 = determine_compliance_level (overall_score s0)"
    and gr: "health_grade s0 = calculate_health_grade (overall_score s0)"
    using score_before_trends_fields [OF bm ev_def, of clock] by blast
  obtain s1 where s1: "score_before_trends clock vr = Inr s1"
    and f: "category_scores sc = category_scores s1"
      "compliance_level sc = compliance_level s1"
      "health_grade sc = health_grade s1"
      "overall_score sc =
         overall_score (adjust_score_for_trends (s1\<lparr>trend_analysis := trend_analysis sc\<rparr>))"
    using run_result_fields [OF ret] by blast
  from s0 s1 have eq: "s1 = s0" by simp
  have cse: "category_scores sc ''evolution_health'' = Some ev"
    by (simp add: f(1) eq cs)
  have ta: "trend_analysis sc = Map.empty" if "hist = None \<or> hist = Some []"
  proof (rule run_cases [OF ret])
    fix s2 assume a: "score_before_trends clock vr = Inr s2"
      "sc = s2\<lparr>recommendations := generate_recommendations s2\<rparr>"
    obtain s3 where "score_before_trends clock vr = Inr s3" and "trend_analysis s3 = Map.empty"
      using score_before_trends_fields [OF bm ev_def, of clock] by blast
    with a show ?thesis by simp
  next
    fix h assume "hist = Some h" "h \<noteq> []"
    with that show ?thesis by simp
  qed
  have scen: "ev = 1 \<and> compliance_level sc = ''exemplary'' \<and> health_grade sc = ''A+''
      \<and> (hist = None \<or> hist = Some [] \<longrightarrow> overall_score sc = 1)"
    if one: "s = 1 \<and> c = 1 \<and> p = 1 \<and> q = 1 \<and> oh = 1"
  proof -
    from one have e1: "ev = 1" by (simp add: ev_def)
    with one ov have o1: "overall_score s0 = 1" by simp
    with lv gr have "compliance_level s0 = ''exemplary''" "health_grade s0 = ''A+''"
      by (simp_all add: determine_compliance_level_def calculate_health_grade_def)
    moreover have "overall_score sc = 1" if "hist = None \<or> hist = Some []"
      using ta [OF that] o1 by (simp add: f(4) eq adjust_score_for_trends_overall)
    ultimately show ?thesis using e1 by (simp add: f(2,3) eq)
  qed
  show ?thesis
    unfolding ev_def [symmetric] using cse scen by simp
qed

theorem evolution_score_from_base_metrics_witness:
  "\<exists>sc. fst (calculate_compliance_score id Missing scenario_A_with_overall None) = Inr sc
      \<and> category_scores sc ''evolution_health'' = Some 1
      \<and> overall_score sc = 1
      \<and> compliance_level sc = ''exemplary''
      \<and> health_grade sc = ''A+''"
proof -
  have bm: "extract_base_metrics scenario_A_with_overall =
     [(''structural_health'', 1), (''content_health'', 1), (''process_health'', 1),
      (''security_health'', 1), (''overall_health'', 1)]"
    by (simp add: extract_base_metrics_def scenario_A_with_overall_def get_default_def)
  obtain s0 where s0: "score_before_trends id scenario_A_with_overall = Inr s0"
    using score_before_trends_returns by blast
  have "fst (calculate_compliance_score id Missing scenario_A_with_overall None) =
      Inr (s0\<lparr>recommendations := generate_recommendations s0\<rparr>)"
    using run_without_history [OF s0 _ load_history_Missing, of None] by simp
  from evolution_score_from_base_metrics [OF bm this] this
  show ?thesis by simp
qed

theorem evolution_score_counterexample:
  "calculate_evolution_health (extract_base_metrics scenario_A) = 0.96
   \<and> calculate_evolution_health (extract_base_metrics scenario_A)
       \<noteq> min 1.0 (0.8 + 0.2 * ((1.0 + 1.0 + 1.0 + 1.0) / 4))
   \<and> \<not> isl (fst (calculate_compliance_score id Missing scenario_A None))
   \<and> category_scores (projr (fst (calculate_compliance_score id Missing scenario_A None)))
       ''evolution_health'' = Some 0.96
   \<and> overall_score (projr (fst (calculate_compliance_score id Missing scenario_A None))) = 0.994"
proof -
  have bm: "extract_base_metrics scenario_A =
     [(''structural_health'', 1), (''content_health'', 1), (''process_health'', 1),
      (''security_health'', 1), (''overall_health'', 0)]"
    by (simp add: extract_base_metrics_def scenario_A_def get_default_def)
  have ev: "(0.96::real) = min 1 (0.8 + 0.2 * ((1 + 1 + 1 + 1 + 0) / 5))" by simp
  obtain s0 where s0: "score_before_trends id scenario_A = Inr s0"
    and ov: "overall_score s0 = 1 * 0.25 + 1 * 0.25 + 1 * 0.20 + 1 * 0.15 + 0.96 * 0.15"
    and cs: "category_scores s0 =
           [''structural_health'' \<mapsto> 1, ''content_health'' \<mapsto> 1,
            ''process_health'' \<mapsto> 1, ''security_health'' \<mapsto> 1,
            ''evolution_health'' \<mapsto> 0.96]"
    using score_before_trends_fields [OF bm ev, of id] by blast
  have "fst (calculate_compliance_score id Missing scenario_A None) =
      Inr (s0\<lparr>recommendations := generate_recommendations s0\<rparr>)"
    using run_without_history [OF s0 _ load_history_Missing, of None] by simp
  with ov cs show ?thesis
    by (simp add: bm evolution_of_base_metrics)
qed

text \<open>
  C2, as the code has it. The three rules on a metric form one \<^verbatim>\<open>if/elif/elif\<close>
  chain: a metric of critical status contributes the urgent flag, one of poor status
  the threshold-breach flag, and the declining-trend flag is appended exactly for the
  metrics that are declining and neither critical nor poor. A critical and declining
  metric therefore gets the urgent flag only (the counterexample is a whole run).
\<close>

theorem recommendations_status_before_trend:
  "(\<forall>m \<in> set (metrics score).
      (metric_status m = ''critical'' \<longrightarrow>
         CriticalAttention (metric_name m) (metric_value m)
           \<in> set (generate_recommendations score))
    \<and> (metric_status m = ''poor'' \<longrightarrow>
         BelowThreshold (metric_name m) (metric_value m)
           \<in> set (generate_recommendations score))
    \<and> (metric_status m \<noteq> ''critical'' \<and> metric_status m \<noteq> ''poor''
         \<and> metric_trend m = ''declining'' \<longrightarrow>
         IsDeclining (metric_name m) \<in> set (generate_recommendations score)))
   \<and> (\<forall>n. IsDeclining n \<in> set (generate_recommendations score) \<longleftrightarrow>
        (\<exists>m \<in> set (metrics score). metric_name m = n
           \<and> metric_status m \<noteq> ''critical'' \<and> metric_status m \<noteq> ''poor''
           \<and> metric_trend m = ''declining''))"
proof -
  have a: "set (generate_recommendations score) \<supseteq>
      (\<Union>m \<in> set (metrics score). set (metric_recommendations m))"
    by (auto simp: generate_recommendations_def)
  have b: "IsDeclining n \<in> set (generate_recommendations score) \<longleftrightarrow>
      (\<exists>m \<in> set (metrics score). IsDeclining n \<in> set (metric_recommendations m))" for n
    by (auto simp: generate_recommendations_def)
  have c: "IsDeclining n \<in> set (metric_recommendations m) \<longleftrightarrow>
      metric_name m = n \<and> metric_status m \<noteq> ''critical'' \<and> metric_status m \<noteq> ''poor''
           \<and> metric_trend m = ''declining''" for n m
    by (auto simp: metric_recommendations_def)
  have d: "metric_status m = ''critical'' \<Longrightarrow>
      CriticalAttention (metric_name m) (metric_value m) \<in> set (metric_recommendations m)" for m
    by (simp add: metric_recommendations_def)
  have e: "metric_status m = ''poor'' \<Longrightarrow>
      BelowThreshold (metric_name m) (metric_value m) \<in> set (metric_recommendations m)" for m
    by (simp add: metric_recommendations_def)
  show ?thesis
  proof (intro conjI ballI allI impI)
    fix m assume "m \<in> set (metrics score)" "metric_status m = ''critical''"
    with a d show "CriticalAttention (metric_name m) (metric_value m)
           \<in> set (generate_recommendations score)" by blast
  next
    fix m assume "m \<in> set (metrics score)" "metric_status m = ''poor''"
    with a e show "BelowThreshold (metric_name m) (metric_value m)
           \<in> set (generate_recommendations score)" by blast
  next
    fix m assume "m \<in> set (metrics score)" "metric_status m \<noteq> ''critical'' \<and> metric_status m \<noteq> ''poor''
         \<and> metric_trend m = ''declining''"
    with b c show "IsDeclining (metric_name m) \<in> set (generate_recommendations score)"
      by blast
  next
    fix n
    show "IsDeclining n \<in> set (generate_recommendations score) \<longleftrightarrow>
        (\<exists>m \<in> set (metrics score). metric_name m = n
           \<and> metric_status m \<noteq> ''critical'' \<and> metric_status m \<noteq> ''poor''
           \<and> metric_trend m = ''declining'')"
      unfolding b c by (rule refl)
  qed
qed

theorem recommendations_status_before_trend_witness:
  "CriticalAttention ''structural_health'' 0.1
     \<in> set (generate_recommendations critical_declining_score)
   \<and> IsDeclining ''structural_health'' \<notin> set (generate_recommendations critical_declining_score)"
  using recommendations_status_before_trend [of critical_declining_score]
  by (simp add: critical_declining_score_def new_ComplianceScore_def)

theorem recommendations_status_before_trend_counterexample:
  "\<not> isl (fst (calculate_compliance_score id Missing no_health_metrics
            (Some [snapshot 0.5 0.5, snapshot 0.5 0.2])))
   \<and> metric_name (hd (metrics (projr (fst (calculate_compliance_score id Missing
        no_health_metrics (Some [snapshot 0.5 0.5, snapshot 0.5 0.2])))))) = ''structural_health''
   \<and> metric_status (hd (metrics (projr (fst (calculate_compliance_score id Missing
        no_health_metrics (Some [snapshot 0.5 0.5, snapshot 0.5 0.2])))))) = ''critical''
   \<and> metric_trend (hd (metrics (projr (fst (calculate_compliance_score id Missing
        no_health_metrics (Some [snapshot 0.5 0.5, snapshot 0.5 0.2])))))) = ''declining''
   \<and> recommendations (projr (fst (calculate_compliance_score id Missing
        no_health_metrics (Some [snapshot 0.5 0.5, snapshot 0.5 0.2])))) =
       [CriticalAttention ''structural_health'' 0, CriticalAttention ''content_health'' 0,
        CriticalAttention ''process_health'' 0, CriticalAttention ''security_health'' 0,
        RunRemediation, ReviewBestPractices, ComprehensiveReview]
   \<and> IsDeclining ''structural_health''
       \<notin> set (recommendations (projr (fst (calculate_compliance_score id Missing
        no_health_metrics (Some [snapshot 0.5 0.5, snapshot 0.5 0.2])))))"
proof -
  let ?h = "[snapshot 0.5 0.5, snapshot 0.5 0.2]"
  have bm: "extract_base_metrics no_health_metrics =
     [(''structural_health'', 0), (''content_health'', 0), (''process_health'', 0),
      (''security_health'', 0), (''overall_health'', 0)]"
    by (simp add: extract_base_metrics_def no_health_metrics_def get_default_def)
  have ev: "(0.8::real) = min 1 (0.8 + 0.2 * ((0 + 0 + 0 + 0 + 0) / 5))" by simp
  obtain s0 where s0: "score_before_trends id no_health_metrics = Inr s0"
    and ov: "overall_score s0 = 0 * 0.25 + 0 * 0.25 + 0 * 0.20 + 0 * 0.15 + 0.8 * 0.15"
    and gr: "health_grade s0 = calculate_health_grade (overall_score s0)"
    and ms: "metrics s0 =
      [\<lparr>metric_name = ''structural_health'', metric_category = STRUCTURAL, metric_value = 0,
        metric_weight = 0.25,
        metric_status = determine_status 0
          \<lparr>excellent = 0.95, good = 0.85, fair = 0.70, poor = 0.50, critical = 0.30\<rparr>,
        metric_trend = ''stable'', metric_last_updated = id 0\<rparr>,
       \<lparr>metric_name = ''content_health'', metric_category = CONTENT, metric_value = 0,
        metric_weight = 0.25,
        metric_status = determine_status 0
          \<lparr>excellent = 0.90, good = 0.80, fair = 0.65, poor = 0.45, critical = 0.25\<rparr>,
        metric_trend = ''stable'', metric_last_updated = id 1\<rparr>,
       \<lparr>metric_name = ''process_health'', metric_category = PROCESS, metric_value = 0,
        metric_weight = 0.20,
        metric_status = determine_status 0
          \<lparr>excellent = 0.85, good = 0.70, fair = 0.55, poor = 0.35, critical = 0.20\<rparr>,
        metric_trend = ''stable'', metric_last_updated = id 2\<rparr>,
       \<lparr>metric_name = ''security_health'', metric_category = SECURITY, metric_value = 0,
        metric_weight = 0.15,
        metric_status = determine_status 0
          \<lparr>excellent = 0.90, good = 0.75, fair = 0.60, poor = 0.40, critical = 0.20\<rparr>,
        metric_trend = ''stable'', metric_last_updated = id 3\<rparr>,
       \<lparr>metric_name = ''evolution_health'', metric_category = EVOLUTION,
        metric_value = 0.8,
        metric_weight = 0.15,
        metric_status = determine_status 0.8
          \<lparr>excellent = 0.80, good = 0.65, fair = 0.50, poor = 0.35, critical = 0.20\<rparr>,
        metric_trend = ''stable'', metric_last_updated = id 4\<rparr>]"
    using score_before_trends_fields [OF bm ev, of id] by blast
  have t: "analyze_trends ?h s0 =
      Inr [''overall'' \<mapsto> ''stable'', ''structural_health'' \<mapsto> ''declining'',
           ''content_health'' \<mapsto> ''stable'', ''process_health'' \<mapsto> ''stable'',
           ''security_health'' \<mapsto> ''stable'', ''evolution_health'' \<mapsto> ''stable'']"
    by (simp add: analyze_trends_def last_n_def snapshot_def Let_def metric_definitions_def
        load_metric_definitions_def entry_category_score_def get_default_def)
  have run: "fst (calculate_compliance_score id Missing no_health_metrics (Some ?h)) =
      Inr ((adjust_score_for_trends (s0\<lparr>trend_analysis :=
              [''overall'' \<mapsto> ''stable'', ''structural_health'' \<mapsto> ''declining'',
               ''content_health'' \<mapsto> ''stable'', ''process_health'' \<mapsto> ''stable'',
               ''security_health'' \<mapsto> ''stable'', ''evolution_health'' \<mapsto> ''stable'']\<rparr>))
            \<lparr>recommendations :=
               generate_recommendations (adjust_score_for_trends (s0\<lparr>trend_analysis :=
              [''overall'' \<mapsto> ''stable'', ''structural_health'' \<mapsto> ''declining'',
               ''content_health'' \<mapsto> ''stable'', ''process_health'' \<mapsto> ''stable'',
               ''security_health'' \<mapsto> ''stable'', ''evolution_health'' \<mapsto> ''stable'']\<rparr>))\<rparr>)"
    using run_with_history [OF s0 _ t load_history_Missing] by simp
  have m: "metrics (adjust_score_for_trends (s0\<lparr>trend_analysis :=
              [''overall'' \<mapsto> ''stable'', ''structural_health'' \<mapsto> ''declining'',
               ''content_health'' \<mapsto> ''stable'', ''process_health'' \<mapsto> ''stable'',
               ''security_health'' \<mapsto> ''stable'', ''evolution_health'' \<mapsto> ''stable'']\<rparr>)) =
      [\<lparr>metric_name = ''structural_health'', metric_category = STRUCTURAL, metric_value = 0,
        metric_weight = 0.25, metric_status = ''critical'',
        metric_trend = ''declining'', metric_last_updated = 0\<rparr>,
       \<lparr>metric_name = ''content_health'', metric_category = CONTENT, metric_value = 0,
        metric_weight = 0.25, metric_status = ''critical'',
        metric_trend = ''stable'', metric_last_updated = 1\<rparr>,
       \<lparr>metric_name = ''process_health'', metric_category = PROCESS, metric_value = 0,
        metric_weight = 0.20, metric_status = ''critical'',
        metric_trend = ''stable'', metric_last_updated = 2\<rparr>,
       \<lparr>metric_name = ''security_health'', metric_category = SECURITY, metric_value = 0,
        metric_weight = 0.15, metric_status = ''critical'',
        metric_trend = ''stable'', metric_last_updated = 3\<rparr>,
       \<lparr>metric_name = ''evolution_health'', metric_category = EVOLUTION,
        metric_value = 0.8, metric_weight = 0.15, metric_status = ''excellent'',
        metric_trend = ''stable'', metric_last_updated = 4\<rparr>]"
    by (simp add: adjust_score_for_trends_metrics ms determine_status_def get_default_def)
  have r: "generate_recommendations (adjust_score_for_trends (s0\<lparr>trend_analysis :=
              [''overall'' \<mapsto> ''stable'', ''structural_health'' \<mapsto> ''declining'',
               ''content_health'' \<mapsto> ''stable'', ''process_health'' \<mapsto> ''stable'',
               ''security_health'' \<mapsto> ''stable'', ''evolution_health'' \<mapsto> ''stable'']\<rparr>)) =
       [CriticalAttention ''structural_health'' 0, CriticalAttention ''content_health'' 0,
        CriticalAttention ''process_health'' 0, CriticalAttention ''security_health'' 0,
        RunRemediation, ReviewBestPractices, ComprehensiveReview]"
    unfolding generate_recommendations_def m
    by (simp add: metric_recommendations_def adjust_score_for_trends_overall
        adjust_score_for_trends_fields ov gr calculate_health_grade_def)
  show ?thesis
    unfolding run by (simp add: r m)
qed

text \<open>
  C3, as the code has it. A run that returns a score found a list in the history file
  (or no file, or text that does not decode as JSON, both read as the empty list) and
  leaves in it the entries it found, without the oldest ones beyond the last 99,
  followed by the new entry; the entries kept are unchanged and in order. When the file
  held fewer than 100 entries every one of them is kept. A run that raises leaves the
  file as it was. With 100 entries stored the oldest is dropped (the counterexample).
\<close>

theorem history_keeps_last_100:
  assumes run: "calculate_compliance_score clock file vr hist = (r, file')"
  shows "(\<forall>sc. r = Inr sc \<longrightarrow>
            (\<exists>old. load_history file = Inr (JsonList old)
               \<and> load_history file' =
                   Inr (JsonList (drop (length old - 99) old @ [history_entry_of (clock 5) sc]))
               \<and> (length old < 100 \<longrightarrow>
                    load_history file' =
                      Inr (JsonList (old @ [history_entry_of (clock 5) sc])))))
       \<and> (\<forall>e. r = Inl e \<longrightarrow> file' = file)"
proof (intro conjI allI impI)
  fix sc assume "r = Inr sc"
  with run obtain old where old: "load_history file = Inr (JsonList old)"
    and f: "file' = Stored (drop (length old - 99) old @ [history_entry_of (clock 5) sc])"
    using run_history_file by blast
  show "\<exists>old. load_history file = Inr (JsonList old)
               \<and> load_history file' =
                   Inr (JsonList (drop (length old - 99) old @ [history_entry_of (clock 5) sc]))
               \<and> (length old < 100 \<longrightarrow>
                    load_history file' =
                      Inr (JsonList (old @ [history_entry_of (clock 5) sc])))"
    using old f by (intro exI [of _ old]) (simp add: load_history_Stored)
next
  fix e assume "r = Inl e"
  with run show "file' = file"
    by (simp add: run_raised_keeps_file)
qed

theorem history_keeps_last_100_witness:
  "load_history (snd (calculate_compliance_score id (Stored [snapshot 0.1 0.1])
       no_health_metrics None)) =
     Inr (JsonList [snapshot 0.1 0.1,
      history_entry_of 5 (projr (fst (calculate_compliance_score id (Stored [snapshot 0.1 0.1])
       no_health_metrics None)))])"
proof -
  let ?run = "calculate_compliance_score id (Stored [snapshot 0.1 0.1]) no_health_metrics None"
  have "\<not> isl (fst ?run)"
    using run_returns [OF _ load_history_Stored, of None id "[snapshot 0.1 0.1]"
        no_health_metrics]
    by auto
  then have "fst ?run = Inr (projr (fst ?run))"
    by (rule run_returned)
  with history_keeps_last_100 [OF prod.collapse [symmetric], of id "Stored [snapshot 0.1 0.1]"
      no_health_metrics None]
  show ?thesis
    by (auto simp: load_history_Stored)
qed

theorem history_keeps_last_100_counterexample:
  "load_history (Stored (snapshot 0.1 0.1 # replicate 99 (snapshot 0.2 0.2)))
     = Inr (JsonList (snapshot 0.1 0.1 # replicate 99 (snapshot 0.2 0.2)))
   \<and> \<not> isl (fst (calculate_compliance_score id
          (Stored (snapshot 0.1 0.1 # replicate 99 (snapshot 0.2 0.2))) no_health_metrics None))
   \<and> load_history (snd (calculate_compliance_score id
          (Stored (snapshot 0.1 0.1 # replicate 99 (snapshot 0.2 0.2))) no_health_metrics None))
     = Inr (JsonList (replicate 99 (snapshot 0.2 0.2)
          @ [history_entry_of 5 (projr (fst (calculate_compliance_score id
               (Stored (snapshot 0.1 0.1 # replicate 99 (snapshot 0.2 0.2)))
               no_health_metrics None)))]))
   \<and> snapshot 0.1 0.1
       \<notin> set (replicate 99 (snapshot 0.2 0.2)
          @ [history_entry_of 5 (projr (fst (calculate_compliance_score id
               (Stored (snapshot 0.1 0.1 # replicate 99 (snapshot 0.2 0.2)))
               no_health_metrics None)))])"
proof -
  let ?old = "snapshot 0.1 0.1 # replicate 99 (snapshot 0.2 0.2)"
  let ?run = "calculate_compliance_score id (Stored ?old) no_health_metrics None"
  have r: "\<not> isl (fst ?run)"
    using run_returns [OF _ load_history_Stored, of None id ?old no_health_metrics] by auto
  then have "fst ?run = Inr (projr (fst ?run))"
    by (rule run_returned)
  then have "?run = (Inr (projr (fst ?run)), snd ?run)"
    by (metis prod.collapse)
  from run_history_file [OF this]
  have l: "load_history (snd ?run) =
      Inr (JsonList (replicate 99 (snapshot 0.2 0.2) @ [history_entry_of 5 (projr (fst ?run))]))"
    by (auto simp: load_history_Stored)
  have "snapshot 0.1 0.1 \<noteq> snapshot 0.2 0.2"
    by (simp add: snapshot_def)
  moreover have "snapshot 0.1 0.1 \<noteq> history_entry_of 5 (projr (fst ?run))"
    by (simp add: snapshot_def history_entry_of_def)
  ultimately show ?thesis using r l
    by (simp add: load_history_Stored)
qed

text \<open>
  C4, as the code has it. In every score returned by a run with a history of fewer
  than 2 entries, or none, the overall score is the one computed before the trend
  analysis, and the trend analysis holds no category key. With exactly one entry the
  trend analysis is \<open>{"overall": "insufficient_data"}\<close>; with an empty or absent
  history the trend analysis is skipped and stays empty (the counterexample).
\<close>

theorem short_history_trend_analysis:
  assumes short: "hist = None \<or> (\<exists>h. hist = Some h \<and> length h < 2)"
    and ret: "fst (calculate_compliance_score clock file vr hist) = Inr sc"
  shows "\<exists>s0. score_before_trends clock vr = Inr s0
       \<and> overall_score sc = overall_score s0
       \<and> trend_analysis sc =
           (if hist = None \<or> hist = Some [] then Map.empty
            else [''overall'' \<mapsto> ''insufficient_data''])
       \<and> (\<forall>cat \<in> set (map fst metric_definitions). trend_analysis sc cat = None)"
proof -
  obtain s c p q oh where bm: "extract_base_metrics vr =
     [(''structural_health'', s), (''content_health'', c), (''process_health'', p),
      (''security_health'', q), (''overall_health'', oh)]"
    using base_metrics_shape by blast
  obtain s0 where s0: "score_before_trends clock vr = Inr s0"
    and ta: "trend_analysis s0 = Map.empty"
    using score_before_trends_fields [OF bm refl, of clock] by blast
  have nc: "\<forall>cat \<in> set metric_definitions. fst cat \<noteq> ''overall''"
    by (simp add: metric_definitions_def load_metric_definitions_def)
  show ?thesis
  proof (rule run_cases [OF ret])
    fix s1 assume a: "score_before_trends clock vr = Inr s1" "hist = None \<or> hist = Some []"
      "sc = s1\<lparr>recommendations := generate_recommendations s1\<rparr>"
    from a(1) s0 have "s1 = s0" by simp
    with a(2,3) s0 ta show ?thesis by simp
  next
    fix s1 h t
    assume a: "score_before_trends clock vr = Inr s1" "hist = Some h" "h \<noteq> []"
      "analyze_trends h s1 = Inr t"
      "sc = (adjust_score_for_trends (s1\<lparr>trend_analysis := t\<rparr>))
            \<lparr>recommendations :=
               generate_recommendations (adjust_score_for_trends (s1\<lparr>trend_analysis := t\<rparr>))\<rparr>"
    from a(1) s0 have eq: "s1 = s0" by simp
    from short a(2) have "length h < 2" by simp
    then have "analyze_trends h s1 = Inr [''overall'' \<mapsto> ''insufficient_data'']"
      by (rule analyze_trends_short)
    with a(4) have t: "t = [''overall'' \<mapsto> ''insufficient_data'']" by simp
    from a(2,3,5) s0 show ?thesis
      by (simp add: eq t nc adjust_score_for_trends_fields adjust_score_for_trends_overall)
  qed
qed

theorem short_history_trend_analysis_witness:
  "\<exists>sc s0. fst (calculate_compliance_score id Missing no_health_metrics
                 (Some [snapshot 0.5 0.5])) = Inr sc
       \<and> score_before_trends id no_health_metrics = Inr s0
       \<and> overall_score sc = overall_score s0
       \<and> trend_analysis sc = [''overall'' \<mapsto> ''insufficient_data'']
       \<and> trend_analysis sc ''structural_health'' = None"
proof -
  obtain sc where sc: "fst (calculate_compliance_score id Missing no_health_metrics
                 (Some [snapshot 0.5 0.5])) = Inr sc"
    using run_returns [OF _ load_history_Missing, of "Some [snapshot 0.5 0.5]" id
        no_health_metrics]
    by auto
  from short_history_trend_analysis [OF _ sc]
  obtain s0 where "score_before_trends id no_health_metrics = Inr s0"
    and "overall_score sc = overall_score s0"
    and "trend_analysis sc = [''overall'' \<mapsto> ''insufficient_data'']"
    and "\<forall>cat \<in> set (map fst metric_definitions). trend_analysis sc cat = None"
    by auto
  moreover from this(4) have "trend_analysis sc ''structural_health'' = None"
    by (simp add: metric_definitions_def load_metric_definitions_def)
  ultimately show ?thesis using sc by blast
qed

theorem short_history_trend_analysis_counterexample:
  "length ([] :: HistoryEntry list) < 2
   \<and> \<not> isl (fst (calculate_compliance_score id Missing no_health_metrics (Some [])))
   \<and> trend_analysis (projr (fst (calculate_compliance_score id Missing no_health_metrics (Some []))))
       ''overall'' = None
   \<and> trend_analysis (projr (fst (calculate_compliance_score id Missing no_health_metrics (Some []))))
       \<noteq> [''overall'' \<mapsto> ''insufficient_data'']"
proof -
  have bm: "extract_base_metrics no_health_metrics =
     [(''structural_health'', 0), (''content_health'', 0), (''process_health'', 0),
      (''security_health'', 0), (''overall_health'', 0)]"
    by (simp add: extract_base_metrics_def no_health_metrics_def get_default_def)
  obtain s0 where s0: "score_before_trends id no_health_metrics = Inr s0"
    and ta: "trend_analysis s0 = Map.empty"
    using score_before_trends_fields [OF bm refl, of id] by blast
  have run: "fst (calculate_compliance_score id Missing no_health_metrics (Some [])) =
      Inr (s0\<lparr>recommendations := generate_recommendations s0\<rparr>)"
    using run_without_history [OF s0 _ load_history_Missing, of "Some []"] by simp
  have "Map.empty \<noteq> [''overall'' \<mapsto> ''insufficient_data'']"
    by (metis map_upd_nonempty)
  with run ta show ?thesis by simp
qed




text \<open>
  C6, as the code has it. For every input the overall score before the trend
  adjustment is the sum over the five categories of the category score times the
  configured weight (0.25, 0.25, 0.20, 0.15, 0.15). For raw category scores in
  \<open>[0,1]\<close> it lies in \<open>[0,1]\<close> provided \<open>overall_health\<close>, which enters the
  evolution score, is absent or at least \<open>-20\<close>. With \<open>overall_health = -100\<close> the
  overall score is \<open>-0.48\<close> (the counterexample).
\<close>

theorem overall_score_weighted_sum:
  assumes bm: "extract_base_metrics vr =
     [(''structural_health'', s), (''content_health'', c), (''process_health'', p),
      (''security_health'', q), (''overall_health'', oh)]"
  shows "\<exists>s0 ev. score_before_trends clock vr = Inr s0
       \<and> ev = min 1 (0.8 + 0.2 * ((s + c + p + q + oh) / 5))
       \<and> category_scores s0 =
           [''structural_health'' \<mapsto> s, ''content_health'' \<mapsto> c,
            ''process_health'' \<mapsto> p, ''security_health'' \<mapsto> q,
            ''evolution_health'' \<mapsto> ev]
       \<and> map (d_weight \<circ> snd) metric_definitions = [0.25, 0.25, 0.20, 0.15, 0.15]
       \<and> overall_score s0 = s * 0.25 + c * 0.25 + p * 0.20 + q * 0.15 + ev * 0.15
       \<and> (0 \<le> s \<and> s \<le> 1 \<and> 0 \<le> c \<and> c \<le> 1 \<and> 0 \<le> p \<and> p \<le> 1 \<and> 0 \<le> q \<and> q \<le> 1
            \<and> - 20 \<le> oh \<longrightarrow>
            0 \<le> overall_score s0 \<and> overall_score s0 \<le> 1)"
proof -
  define ev where "ev = min (1::real) (0.8 + 0.2 * ((s + c + p + q + oh) / 5))"
  obtain s0 where s0: "score_before_trends clock vr = Inr s0"
    and ov: "overall_score s0 = s * 0.25 + c * 0.25 + p * 0.20 + q * 0.15 + ev * 0.15"
    and cs: "category_scores s0 =
           [''structural_health'' \<mapsto> s, ''content_health'' \<mapsto> c,
            ''process_health'' \<mapsto> p, ''security_health'' \<mapsto> q,
            ''evolution_health'' \<mapsto> ev]"
    using score_before_trends_fields [OF bm ev_def, of clock] by blast
  have w: "map (d_weight \<circ> snd) metric_definitions = [0.25, 0.25, 0.20, 0.15, 0.15]"
    by (simp add: metric_definitions_def load_metric_definitions_def)
  have bounds: "0 \<le> overall_score s0 \<and> overall_score s0 \<le> 1"
    if unit: "0 \<le> s \<and> s \<le> 1 \<and> 0 \<le> c \<and> c \<le> 1 \<and> 0 \<le> p \<and> p \<le> 1 \<and> 0 \<le> q \<and> q \<le> 1
            \<and> - 20 \<le> oh"
  proof -
    have "0 \<le> 0.8 + 0.2 * ((s + c + p + q + oh) / 5)"
      using unit by (simp add: field_simps)
    then have ev_bounds: "0 \<le> ev" "ev \<le> 1"
      by (simp_all add: ev_def)
    show ?thesis
      using unit ev_bounds by (simp add: ov)
  qed
  show ?thesis
  proof (intro exI conjI impI)
    show "score_before_trends clock vr = Inr s0" by (rule s0)
    show "ev = min 1 (0.8 + 0.2 * ((s + c + p + q + oh) / 5))" by (rule ev_def)
    show "category_scores s0 =
           [''structural_health'' \<mapsto> s, ''content_health'' \<mapsto> c,
            ''process_health'' \<mapsto> p, ''security_health'' \<mapsto> q,
            ''evolution_health'' \<mapsto> ev]" by (rule cs)
    show "map (d_weight \<circ> snd) metric_definitions = [0.25, 0.25, 0.20, 0.15, 0.15]"
      by (rule w)
    show "overall_score s0 = s * 0.25 + c * 0.25 + p * 0.20 + q * 0.15 + ev * 0.15"
      by (rule ov)
  next
    assume "0 \<le> s \<and> s \<le> 1 \<and> 0 \<le> c \<and> c \<le> 1 \<and> 0 \<le> p \<and> p \<le> 1 \<and> 0 \<le> q \<and> q \<le> 1
            \<and> - 20 \<le> oh"
    then show "0 \<le> overall_score s0" using bounds by blast
  next
    assume "0 \<le> s \<and> s \<le> 1 \<and> 0 \<le> c \<and> c \<le> 1 \<and> 0 \<le> p \<and> p \<le> 1 \<and> 0 \<le> q \<and> q \<le> 1
            \<and> - 20 \<le> oh"
    then show "overall_score s0 \<le> 1" using bounds by blast
  qed
qed

theorem overall_score_weighted_sum_witness:
  "\<exists>s0. score_before_trends id (uniform_health 0.5) = Inr s0
       \<and> category_scores s0 ''evolution_health'' = Some 0.9
       \<and> overall_score s0 = 0.5 * 0.25 + 0.5 * 0.25 + 0.5 * 0.20 + 0.5 * 0.15 + 0.9 * 0.15
       \<and> 0 \<le> overall_score s0 \<and> overall_score s0 \<le> 1"
proof -
  have bm: "extract_base_metrics (uniform_health 0.5) =
     [(''structural_health'', 0.5), (''content_health'', 0.5), (''process_health'', 0.5),
      (''security_health'', 0.5), (''overall_health'', 0.5)]"
    by (simp add: extract_base_metrics_def uniform_health_def get_default_def)
  from overall_score_weighted_sum [OF bm, of id]
  obtain s0 ev where s0: "score_before_trends id (uniform_health 0.5) = Inr s0"
    and ev: "ev = min 1 (0.8 + 0.2 * ((0.5 + 0.5 + 0.5 + 0.5 + 0.5) / 5))"
    and cs: "category_scores s0 =
           [''structural_health'' \<mapsto> 0.5, ''content_health'' \<mapsto> 0.5,
            ''process_health'' \<mapsto> 0.5, ''security_health'' \<mapsto> 0.5,
            ''evolution_health'' \<mapsto> ev]"
    and ov: "overall_score s0 = 0.5 * 0.25 + 0.5 * 0.25 + 0.5 * 0.20 + 0.5 * 0.15 + ev * 0.15"
    and b: "(0::real) \<le> 0.5 \<and> (0.5::real) \<le> 1 \<and> (0::real) \<le> 0.5 \<and> (0.5::real) \<le> 1
            \<and> (0::real) \<le> 0.5 \<and> (0.5::real) \<le> 1 \<and> (0::real) \<le> 0.5 \<and> (0.5::real) \<le> 1
            \<and> - 20 \<le> (0.5::real) \<longrightarrow>
            0 \<le> overall_score s0 \<and> overall_score s0 \<le> 1"
    by blast
  from ev have e: "ev = 0.9" by simp
  from b have "0 \<le> overall_score s0 \<and> overall_score s0 \<le> 1" by simp
  with s0 cs ov e show ?thesis by (intro exI [of _ s0]) simp
qed

theorem overall_score_weighted_sum_counterexample:
  "extract_base_metrics (only_overall_health (- 100)) =
     [(''structural_health'', 0), (''content_health'', 0), (''process_health'', 0),
      (''security_health'', 0), (''overall_health'', - 100)]
   \<and> \<not> isl (score_before_trends id (only_overall_health (- 100)))
   \<and> overall_score (projr (score_before_trends id (only_overall_health (- 100)))) = - 0.48
   \<and> \<not> isl (fst (calculate_compliance_score id Missing (only_overall_health (- 100)) None))
   \<and> overall_score
        (projr (fst (calculate_compliance_score id Missing (only_overall_health (- 100)) None)))
      < 0"
proof -
  have bm: "extract_base_metrics (only_overall_health (- 100)) =
     [(''structural_health'', 0), (''content_health'', 0), (''process_health'', 0),
      (''security_health'', 0), (''overall_health'', - 100)]"
    by (simp add: extract_base_metrics_def only_overall_health_def get_default_def)
  have ev: "(- 3.2::real) = min 1 (0.8 + 0.2 * ((0 + 0 + 0 + 0 + - 100) / 5))" by simp
  obtain s0 where s0: "score_before_trends id (only_overall_health (- 100)) = Inr s0"
    and ov: "overall_score s0 = 0 * 0.25 + 0 * 0.25 + 0 * 0.20 + 0 * 0.15 + (- 3.2) * 0.15"
    using score_before_trends_fields [OF bm ev, of id] by blast
  have run: "fst (calculate_compliance_score id Missing (only_overall_health (- 100)) None) =
      Inr (s0\<lparr>recommendations := generate_recommendations s0\<rparr>)"
    using run_without_history [OF s0 _ load_history_Missing, of None] by simp
  show ?thesis
    by (simp add: bm run s0 ov)
qed

text \<open>
  C7. For an overall score \<open>s\<close> in \<open>[0,1]\<close>, \<^verbatim>\<open>_adjust_score_for_trends\<close> sets
  the overall score to \<open>min 1 (s * 1.02)\<close> when the overall trend is improving, to
  \<open>max 0 (s * 0.98)\<close> when it is declining, and leaves it unchanged when it is stable
  or insufficient_data; the result lies in \<open>[0,1]\<close>.
\<close>

theorem trend_adjustment_of_overall_score:
  assumes "0 \<le> overall_score score" and "overall_score score \<le> 1"
  shows "(trend_analysis score ''overall'' = Some ''improving'' \<longrightarrow>
            overall_score (adjust_score_for_trends score) = min 1.0 (overall_score score * 1.02))
       \<and> (trend_analysis score ''overall'' = Some ''declining'' \<longrightarrow>
            overall_score (adjust_score_for_trends score) = max 0.0 (overall_score score * 0.98))
       \<and> (trend_analysis score ''overall'' = Some ''stable''
            \<or> trend_analysis score ''overall'' = Some ''insufficient_data'' \<longrightarrow>
            overall_score (adjust_score_for_trends score) = overall_score score)
       \<and> 0 \<le> overall_score (adjust_score_for_trends score)
       \<and> overall_score (adjust_score_for_trends score) \<le> 1"
  using assms by (auto simp: adjust_score_for_trends_overall)

theorem trend_adjustment_of_overall_score_witness:
  "overall_score (adjust_score_for_trends
      ((new_ComplianceScore 0.99)\<lparr>trend_analysis := [''overall'' \<mapsto> ''improving'']\<rparr>)) = 1
   \<and> overall_score (adjust_score_for_trends
      ((new_ComplianceScore 0.5)\<lparr>trend_analysis := [''overall'' \<mapsto> ''declining'']\<rparr>)) = 0.49
   \<and> overall_score (adjust_score_for_trends
      ((new_ComplianceScore 0.5)\<lparr>trend_analysis := [''overall'' \<mapsto> ''stable'']\<rparr>)) = 0.5"
  using trend_adjustment_of_overall_score
      [of "(new_ComplianceScore 0.99)\<lparr>trend_analysis := [''overall'' \<mapsto> ''improving'']\<rparr>"]
    trend_adjustment_of_overall_score
      [of "(new_ComplianceScore 0.5)\<lparr>trend_analysis := [''overall'' \<mapsto> ''declining'']\<rparr>"]
    trend_adjustment_of_overall_score
      [of "(new_ComplianceScore 0.5)\<lparr>trend_analysis := [''overall'' \<mapsto> ''stable'']\<rparr>"]
  by (simp add: new_ComplianceScore_def)

text \<open>
  C8. In every run that returns a score, the compliance level and the health grade
  are those of the overall score before the trend adjustment, while the field
  \<open>overall_score\<close> holds the adjusted value. The witness is a run with history in which
  the level is \<open>secure\<close> and the grade \<open>A-\<close> beside a reported score whose own level
  and grade would be \<open>exemplary\<close> and \<open>A\<close>.
\<close>

theorem grade_from_unadjusted_score:
  assumes ret: "fst (calculate_compliance_score clock file vr hist) = Inr sc"
  shows "\<exists>s0. score_before_trends clock vr = Inr s0
       \<and> compliance_level sc = determine_compliance_level (overall_score s0)
       \<and> health_grade sc = calculate_health_grade (overall_score s0)
       \<and> overall_score sc =
           (if trend_analysis sc ''overall'' = Some ''improving''
            then min 1 (overall_score s0 * 1.02)
            else if trend_analysis sc ''overall'' = Some ''declining''
            then max 0 (overall_score s0 * 0.98)
            else overall_score s0)"
proof -
  obtain s c p q oh where bm: "extract_base_metrics vr =
     [(''structural_health'', s), (''content_health'', c), (''process_health'', p),
      (''security_health'', q), (''overall_health'', oh)]"
    using base_metrics_shape by blast
  obtain s0 where s0: "score_before_trends clock vr = Inr s0"
    and lv: "compliance_level s0 = determine_compliance_level (overall_score s0)"
    and gr: "health_grade s0 = calculate_health_grade (overall_score s0)"
    using score_before_trends_fields [OF bm refl, of clock] by blast
  obtain s1 where "score_before_trends clock vr = Inr s1"
    and "compliance_level sc = compliance_level s1"
    and "health_grade sc = health_grade s1"
    and "overall_score sc =
           overall_score (adjust_score_for_trends (s1\<lparr>trend_analysis := trend_analysis sc\<rparr>))"
    using run_result_fields [OF ret] by blast
  with s0 lv gr show ?thesis
    by (simp add: adjust_score_for_trends_overall)
qed

theorem grade_from_unadjusted_score_witness:
  "\<exists>sc. fst (calculate_compliance_score id Missing (uniform_health 0.88)
             (Some [snapshot 0.5 0.5, snapshot 0.8 0.5])) = Inr sc
      \<and> trend_analysis sc ''overall'' = Some ''improving''
      \<and> compliance_level sc = ''secure''
      \<and> health_grade sc = ''A-''
      \<and> overall_score sc = 0.8944 * 1.02
      \<and> determine_compliance_level (overall_score sc) = ''exemplary''
      \<and> calculate_health_grade (overall_score sc) = ''A''"
proof -
  let ?h = "[snapshot 0.5 0.5, snapshot 0.8 0.5]"
  have bm: "extract_base_metrics (uniform_health 0.88) =
     [(''structural_health'', 0.88), (''content_health'', 0.88), (''process_health'', 0.88),
      (''security_health'', 0.88), (''overall_health'', 0.88)]"
    by (simp add: extract_base_metrics_def uniform_health_def get_default_def)
  have ev: "(0.976::real) = min 1 (0.8 + 0.2 * ((0.88 + 0.88 + 0.88 + 0.88 + 0.88) / 5))"
    by simp
  obtain s1 where s1: "score_before_trends id (uniform_health 0.88) = Inr s1"
    and ov: "overall_score s1 =
      0.88 * 0.25 + 0.88 * 0.25 + 0.88 * 0.20 + 0.88 * 0.15 + 0.976 * 0.15"
    using score_before_trends_fields [OF bm ev, of id] by blast
  have os: "overall_scores (last_n 5 ?h) = Inr [0.5, 0.8]"
    by (simp add: last_n_def snapshot_def)
  then obtain sc where
    sc: "fst (calculate_compliance_score id Missing (uniform_health 0.88) (Some ?h)) = Inr sc"
    using run_returns [OF _ load_history_Missing, of "Some ?h" id "uniform_health 0.88"]
    by auto
  obtain t where t: "analyze_trends ?h s1 = Inr t" "t ''overall'' = Some ''improving''"
    using analyze_trends_overall [OF _ os, of s1] by auto
  have ta: "trend_analysis sc ''overall'' = Some ''improving''"
    using run_trend_analysis [OF sc _ t(1)] t(2) by simp
  from grade_from_unadjusted_score [OF sc] s1 ov ta
  have "compliance_level sc = ''secure'' \<and> health_grade sc = ''A-''
      \<and> overall_score sc = 0.8944 * 1.02"
    by (simp add: determine_compliance_level_def calculate_health_grade_def)
  with sc ta show ?thesis
    by (simp add: determine_compliance_level_def calculate_health_grade_def)
qed

text \<open>
  C9. Two runs with the same validation result and the same history, the second
  starting from the history file the first left and reading another clock, raise the
  same exception or return scores that agree in every field but the timestamps.
\<close>

theorem scoring_twice_same_fields:
  assumes first: "calculate_compliance_score clock1 file0 vr hist = (r1, file1)"
    and second: "calculate_compliance_score clock2 file1 vr hist = (r2, file2)"
  shows "map_sum id without_timestamps r1 = map_sum id without_timestamps r2"
proof -
  have "fst (calculate_compliance_score clock2 file1 vr hist) =
      fst (calculate_compliance_score clock2 file0 vr hist)"
  proof (cases r1)
    case (Inl e)
    with first have "file1 = file0" by (simp add: run_raised_keeps_file)
    then show ?thesis by simp
  next
    case (Inr sc)
    with first obtain old where l0: "load_history file0 = Inr (JsonList old)"
      and f1: "file1 = Stored (drop (length old - 99) old @ [history_entry_of (clock1 5) sc])"
      using run_history_file by blast
    show ?thesis
      unfolding f1 by (rule run_same_on_loaded_files [OF load_history_Stored l0])
  qed
  with run_without_timestamps [of clock1 file0 vr hist clock2] first second
  show ?thesis by simp
qed

theorem scoring_twice_same_fields_witness:
  "map_sum id without_timestamps
     (fst (calculate_compliance_score id Missing (uniform_health 0.88)
        (Some [snapshot 0.5 0.5, snapshot 0.8 0.5]))) =
   map_sum id without_timestamps
     (fst (calculate_compliance_score ((+) 100)
        (snd (calculate_compliance_score id Missing (uniform_health 0.88)
           (Some [snapshot 0.5 0.5, snapshot 0.8 0.5])))
        (uniform_health 0.88) (Some [snapshot 0.5 0.5, snapshot 0.8 0.5])))"
  by (rule scoring_twice_same_fields [OF prod.collapse [symmetric] prod.collapse [symmetric]])

text \<open>
  C10, as the code has it. When the four raw category scores and \<open>overall_health\<close>
  (each \<open>0.0\<close> when absent) are non-negative, the evolution category score of a
  returned score lies in \<open>[0.8, 1]\<close>, the status of the evolution metric is
  \<open>excellent\<close>, and the overall score before the trend adjustment is at least
  \<open>0.12\<close>. With \<open>overall_health = -1\<close> and no raw score the evolution score is
  \<open>0.76\<close> and its status \<open>good\<close> (the counterexample).
\<close>

theorem evolution_score_bounds:
  assumes bm: "extract_base_metrics vr =
     [(''structural_health'', s), (''content_health'', c), (''process_health'', p),
      (''security_health'', q), (''overall_health'', oh)]"
    and nonneg: "0 \<le> s" "0 \<le> c" "0 \<le> p" "0 \<le> q" "0 \<le> oh"
    and ret: "fst (calculate_compliance_score clock file vr hist) = Inr sc"
  shows "\<exists>ev s0. category_scores sc ''evolution_health'' = Some ev
       \<and> 0.8 \<le> ev \<and> ev \<le> 1
       \<and> metric_name (last (metrics sc)) = ''evolution_health''
       \<and> metric_value (last (metrics sc)) = ev
       \<and> metric_status (last (metrics sc)) = ''excellent''
       \<and> score_before_trends clock vr = Inr s0
       \<and> 0.12 \<le> overall_score s0"
proof -
  define ev where "ev = min (1::real) (0.8 + 0.2 * ((s + c + p + q + oh) / 5))"
  obtain s0 where s0: "score_before_trends clock vr = Inr s0"
    and ov: "overall_score s0 = s * 0.25 + c * 0.25 + p * 0.20 + q * 0.15 + ev * 0.15"
    and cs: "category_scores s0 =
           [''structural_health'' \<mapsto> s, ''content_health'' \<mapsto> c,
            ''process_health'' \<mapsto> p, ''security_health'' \<mapsto> q,
            ''evolution_health'' \<mapsto> ev]"
    using score_before_trends_fields [OF bm ev_def, of clock] by blast
  have ev_bounds: "0.8 \<le> ev" "ev \<le> 1"
    using nonneg by (simp_all add: ev_def)
  obtain s1 where "score_before_trends clock vr = Inr s1"
    and "category_scores sc = category_scores s1"
    using run_result_fields [OF ret] by blast
  with s0 cs have cat: "category_scores sc ''evolution_health'' = Some ev" by simp
  note ms = score_before_trends_metrics [OF bm ev_def s0]
  note rm = run_result_metrics [OF ret s0]
  have ne: "metrics sc \<noteq> []"
    using rm(1) ms(1) by (auto simp: metric_definitions_def load_metric_definitions_def)
  have "metric_name (last (metrics sc)) = last (map metric_name (metrics sc))"
    using ne by (simp add: last_map)
  then have name: "metric_name (last (metrics sc)) = ''evolution_health''"
    by (simp add: rm(1) ms(1) metric_definitions_def load_metric_definitions_def)
  have "metric_value (last (metrics sc)) = last (map metric_value (metrics sc))"
    using ne by (simp add: last_map)
  then have val: "metric_value (last (metrics sc)) = ev"
    by (simp add: rm(2) ms(2))
  have "metric_status (last (metrics sc)) = last (map metric_status (metrics sc))"
    using ne by (simp add: last_map)
  then have status: "metric_status (last (metrics sc)) = ''excellent''"
    using ev_bounds by (simp add: rm(3) ms(3) determine_status_def)
  have "0.12 \<le> overall_score s0"
    using nonneg ev_bounds by (simp add: ov)
  with cat ev_bounds name val status s0 show ?thesis by blast
qed

theorem evolution_score_bounds_witness:
  "\<exists>ev s0. category_scores
        (projr (fst (calculate_compliance_score id Missing no_health_metrics None)))
        ''evolution_health'' = Some ev
     \<and> 0.8 \<le> ev \<and> ev \<le> 1
     \<and> metric_status
         (last (metrics (projr (fst (calculate_compliance_score id Missing no_health_metrics None)))))
       = ''excellent''
     \<and> score_before_trends id no_health_metrics = Inr s0
     \<and> 0.12 \<le> overall_score s0"
proof -
  have bm: "extract_base_metrics no_health_metrics =
     [(''structural_health'', 0), (''content_health'', 0), (''process_health'', 0),
      (''security_health'', 0), (''overall_health'', 0)]"
    by (simp add: extract_base_metrics_def no_health_metrics_def get_default_def)
  have "\<not> isl (fst (calculate_compliance_score id Missing no_health_metrics None))"
    using run_returns [OF _ load_history_Missing, of None id no_health_metrics] by auto
  from evolution_score_bounds [OF bm _ _ _ _ _ run_returned [OF this]]
  show ?thesis by simp
qed

theorem evolution_score_bounds_counterexample:
  "extract_base_metrics (only_overall_health (- 1)) =
     [(''structural_health'', 0), (''content_health'', 0), (''process_health'', 0),
      (''security_health'', 0), (''overall_health'', - 1)]
   \<and> calculate_evolution_health (extract_base_metrics (only_overall_health (- 1))) = 0.76
   \<and> determine_status
        (calculate_evolution_health (extract_base_metrics (only_overall_health (- 1))))
        (d_thresholds (snd (last metric_definitions))) = ''good''
   \<and> \<not> isl (fst (calculate_compliance_score id Missing (only_overall_health (- 1)) None))
   \<and> category_scores
        (projr (fst (calculate_compliance_score id Missing (only_overall_health (- 1)) None)))
        ''evolution_health'' = Some 0.76
   \<and> metric_status (last (metrics
        (projr (fst (calculate_compliance_score id Missing (only_overall_health (- 1)) None)))))
      = ''good''
   \<and> \<not> isl (score_before_trends id (only_overall_health (- 1)))
   \<and> overall_score (projr (score_before_trends id (only_overall_health (- 1)))) = 0.114"
proof -
  have bm: "extract_base_metrics (only_overall_health (- 1)) =
     [(''structural_health'', 0), (''content_health'', 0), (''process_health'', 0),
      (''security_health'', 0), (''overall_health'', - 1)]"
    by (simp add: extract_base_metrics_def only_overall_health_def get_default_def)
  have ev: "(0.76::real) = min 1 (0.8 + 0.2 * ((0 + 0 + 0 + 0 + - 1) / 5))" by simp
  obtain s0 where s0: "score_before_trends id (only_overall_health (- 1)) = Inr s0"
    and ov: "overall_score s0 = 0 * 0.25 + 0 * 0.25 + 0 * 0.20 + 0 * 0.15 + 0.76 * 0.15"
    and cs: "category_scores s0 =
           [''structural_health'' \<mapsto> 0, ''content_health'' \<mapsto> 0,
            ''process_health'' \<mapsto> 0, ''security_health'' \<mapsto> 0,
            ''evolution_health'' \<mapsto> 0.76]"
    using score_before_trends_fields [OF bm ev, of id] by blast
  note ms = score_before_trends_metrics [OF bm ev s0]
  have run: "fst (calculate_compliance_score id Missing (only_overall_health (- 1)) None) =
      Inr (s0\<lparr>recommendations := generate_recommendations s0\<rparr>)"
    using run_without_history [OF s0 _ load_history_Missing, of None] by simp
  have ne: "metrics s0 \<noteq> []" using ms(4) by auto
  have "metric_status (last (metrics s0)) = last (map metric_status (metrics s0))"
    using ne by (simp add: last_map)
  then have st: "metric_status (last (metrics s0)) = ''good''"
    by (simp add: ms(3) determine_status_def)
  have d: "determine_status 0.76 (d_thresholds (snd (last metric_definitions))) = ''good''"
    by (simp add: metric_definitions_def load_metric_definitions_def determine_status_def)
  have e: "calculate_evolution_health (extract_base_metrics (only_overall_health (- 1))) = 0.76"
    by (simp add: bm evolution_of_base_metrics)
  show ?thesis
    unfolding e using d by (simp add: bm run s0 ov cs st)
qed

end
